theory Spec2Isabelle
  imports Complex_Main "HOL-Library.AList" "HOL-Library.Log_Nat"
begin

section \<open>Contest model of Hydro: \<^verbatim>\<open>packages/hydrooj/src/model/contest.ts\<close>\<close>

text \<open>
  Instants (\<^verbatim>\<open>Date\<close> values) are their \<^verbatim>\<open>getTime()\<close>, the milliseconds since the epoch, as
  \<^typ>\<open>int\<close>. Comparisons of two \<^verbatim>\<open>Date\<close> objects with \<^verbatim>\<open><\<close>, \<^verbatim>\<open><=\<close>, \<^verbatim>\<open>></\<close> compare these
  numbers. Every function that reads the clock (\<^verbatim>\<open>new Date()\<close>, \<^verbatim>\<open>Date.now()\<close>) takes the
  instant \<open>now\<close> as a parameter.
\<close>

type_synonym date = int

subsection \<open>Contest configuration and participant status\<close>

text \<open>
  \<^verbatim>\<open>Tdoc\<close>: the fields of the contest document that this file reads. An optional field is an
  \<^typ>\<open>'a option\<close>; \<^verbatim>\<open>duration\<close> is a number of hours, possibly fractional; \<^verbatim>\<open>penaltyRules\<close>
  maps an hour offset to a coefficient (its keys are listed by their numeric value, as
  \<^verbatim>\<open>Object.keys(...).map(parseFloat)\<close> reads them).
\<close>

record tdoc =
  rule :: string
  beginAt :: date
  endAt :: date
  lockAt :: "date option"
  unlocked :: bool
  duration :: "rat option"
  pids :: "int list"
  penaltySince :: date
  penaltyRules :: "(rat \<times> rat) list"

text \<open>
  \<^verbatim>\<open>Tsdoc\<close>: the fields of a participant's status document read by the lifecycle predicates
  (\<^verbatim>\<open>startAt\<close>) and by the tie predicates of the ranking (\<^verbatim>\<open>score\<close>, \<^verbatim>\<open>accept\<close>, \<^verbatim>\<open>time\<close>,
  here with the prefix \<open>ts_\<close>, since the journal entries have fields of the same names).
  A field the document does not have is \<^verbatim>\<open>undefined\<close> in the source and \<^term>\<open>None\<close> here.
\<close>

record tsdoc =
  uid :: int
  startAt :: "date option"
  ts_score :: "int option"
  ts_accept :: "int option"
  ts_time :: "int option"

subsection \<open>Lifecycle predicates\<close>

text \<open>
  The test shared by \<^verbatim>\<open>isOngoing\<close> and \<^verbatim>\<open>isDone\<close>:
  \<^verbatim>\<open>tsdoc && tdoc.duration && tsdoc.startAt <= new Date(Date.now() - Math.floor(tdoc.duration * Time.hour))\<close>.
  \<^verbatim>\<open>tdoc.duration\<close> is truthy when it is present and not zero; a comparison with an absent
  \<^verbatim>\<open>startAt\<close> is false. \<open>hour\<close> is the constant \<^verbatim>\<open>Time.hour\<close> of the utilities package.
  The clock reads of one call (\<^verbatim>\<open>new Date()\<close> and \<^verbatim>\<open>Date.now()\<close>) are the one instant \<open>now\<close>.
\<close>

definition budgetExhausted :: "int \<Rightarrow> tdoc \<Rightarrow> tsdoc option \<Rightarrow> date \<Rightarrow> bool" where
  "budgetExhausted hour td ts now =
     (case ts of
        None \<Rightarrow> False
      | Some s \<Rightarrow>
          (case duration td of
             None \<Rightarrow> False
           | Some d \<Rightarrow>
               d \<noteq> 0 \<and>
               (case startAt s of
                  None \<Rightarrow> False
                | Some st \<Rightarrow> st \<le> now - \<lfloor>d * of_int hour\<rfloor>)))"

definition isNotStarted :: "tdoc \<Rightarrow> date \<Rightarrow> bool" where
  "isNotStarted td now = (now < beginAt td)"

definition isOngoing :: "int \<Rightarrow> tdoc \<Rightarrow> tsdoc option \<Rightarrow> date \<Rightarrow> bool" where
  "isOngoing hour td ts now =
     (if budgetExhausted hour td ts now then False
      else (beginAt td \<le> now \<and> now < endAt td))"

definition isDone :: "int \<Rightarrow> tdoc \<Rightarrow> tsdoc option \<Rightarrow> date \<Rightarrow> bool" where
  "isDone hour td ts now =
     (if endAt td \<le> now then True
      else if budgetExhausted hour td ts now then True
      else False)"

definition isLocked :: "tdoc \<Rightarrow> date \<Rightarrow> bool" where
  "isLocked td now =
     (case lockAt td of
        None \<Rightarrow> False
      | Some l \<Rightarrow> l < now \<and> \<not> unlocked td)"

definition isExtended :: "tdoc \<Rightarrow> date \<Rightarrow> bool" where
  "isExtended td now = (penaltySince td \<le> now \<and> now < endAt td)"

subsection \<open>Journal entries\<close>

text \<open>
  An \<^verbatim>\<open>ObjectId\<close> carries its creation instant; \<open>getTimestamp\<close> is
  \<^verbatim>\<open>rid.getTimestamp().getTime()\<close>, in milliseconds. \<open>oid\<close> stands for the other bytes of the
  identifier.
\<close>

record ObjectId =
  getTimestamp :: date
  oid :: nat

text \<open>
  The constants of \<^verbatim>\<open>STATUS\<close> (module \<^verbatim>\<open>./builtin\<close>) that the rules compare a verdict with.
  Their values are parameters of the model.
\<close>

record STATUS =
  STATUS_ACCEPTED :: int
  STATUS_COMPILE_ERROR :: int
  STATUS_FORMAT_ERROR :: int

text \<open>
  \<open>Scored\<close> holds the two fields a journal entry and a \<^verbatim>\<open>SubtaskResult\<close> share, so that
  \<open>score\<close> and \<open>status\<close> read both; the type of \<open>status\<close> is a parameter, a number of
  \<^verbatim>\<open>STATUS\<close> being an \<^typ>\<open>int\<close>. \<open>Journal\<close> has the fields every journal entry has
  (\<^verbatim>\<open>_updateStatus\<close> pushes \<^verbatim>\<open>rid\<close>, \<^verbatim>\<open>pid\<close>, \<^verbatim>\<open>status\<close>, \<^verbatim>\<open>score\<close>, \<^verbatim>\<open>subtasks\<close>), then
  come \<^verbatim>\<open>interface AcmJournal\<close> and \<^verbatim>\<open>interface AcmDetail\<close>. The
  object spread \<^verbatim>\<open>{ ...j, naccept, time, real, penalty }\<close> is the record extension
  \<open>AcmJournal.extend\<close> of the entry with its \<open>time\<close> replaced; the field \<^verbatim>\<open>real\<close> is
  \<open>real_sec\<close> here.
\<close>

record 'st Scored =
  score :: int
  status :: 'st

record 'st Journal = "'st Scored" +
  rid :: ObjectId
  pid :: int

record AcmJournal = "int Journal" +
  time :: int

record AcmDetail = AcmJournal +
  naccept :: nat
  penalty :: int
  real_sec :: int

text \<open>
  An entry of \<^verbatim>\<open>display\<close> is an \<^verbatim>\<open>AcmDetail\<close> object, or the object \<^verbatim>\<open>{}\<close> made by
  \<^verbatim>\<open>display[j.pid] ||= {}\<close>, each with or without the field \<^verbatim>\<open>npending\<close>: \<open>shown\<close> holds the
  fields of the \<^verbatim>\<open>AcmDetail\<close> when they are there. (An object of \<^verbatim>\<open>detail\<close> never has
  \<^verbatim>\<open>npending\<close>: \<^verbatim>\<open>detail[j.pid]\<close> is a fresh object before \<^verbatim>\<open>display[j.pid].npending\<close> is
  written.)
\<close>

record 'a Display =
  shown :: "'a option"
  npending :: "nat option"

text \<open>
  A JavaScript object used as a dictionary is an association list: \<^term>\<open>map_of\<close> reads a
  key, \<^const>\<open>AList.update\<close> writes one (in place when the key is there, at the end
  otherwise), \<^term>\<open>map snd\<close> is \<^verbatim>\<open>Object.values\<close>. \<^verbatim>\<open>Counter()\<close> of the utilities
  package, a dictionary that reads 0 at a key never written, is a function into \<^typ>\<open>nat\<close>.
\<close>

type_synonym 'v dict = "(int \<times> 'v) list"
type_synonym Counter = "int \<Rightarrow> nat"

subsection \<open>The ACM rule: \<^verbatim>\<open>acm.stat\<close>\<close>

record AcmState =
  st_naccept :: Counter
  st_npending :: Counter
  st_display :: "AcmDetail Display dict"
  st_detail :: "AcmDetail dict"

record AcmStat =
  stat_accept :: nat
  stat_time :: int
  stat_detail :: "AcmDetail dict"
  stat_display :: "AcmDetail Display dict"

text \<open>\<^verbatim>\<open>const lockAt = isLocked(tdoc) ? tdoc.lockAt : null\<close>\<close>

definition effectiveLockAt :: "tdoc \<Rightarrow> date \<Rightarrow> date option" where
  "effectiveLockAt td now = (if isLocked td now then lockAt td else None)"

text \<open>\<^verbatim>\<open>lockAt && j.rid.getTimestamp() > lockAt\<close>; a \<^verbatim>\<open>Date\<close> object is always truthy.\<close>

definition afterLock :: "date option \<Rightarrow> ObjectId \<Rightarrow> bool" where
  "afterLock l r = (case l of None \<Rightarrow> False | Some t \<Rightarrow> getTimestamp r > t)"

text \<open>\<^verbatim>\<open>display[j.pid]?.status === STATUS.STATUS_ACCEPTED\<close>\<close>

definition displayAccepted :: "STATUS \<Rightarrow> AcmDetail Display dict \<Rightarrow> int \<Rightarrow> bool" where
  "displayAccepted S display p =
     (case map_of display p of
        None \<Rightarrow> False
      | Some d \<Rightarrow> (case shown d of None \<Rightarrow> False | Some e \<Rightarrow> status e = STATUS_ACCEPTED S))"

text \<open>\<^verbatim>\<open>![ACCEPTED, COMPILE_ERROR, FORMAT_ERROR].includes(j.status)\<close>\<close>

definition countsAsAttempt :: "STATUS \<Rightarrow> int \<Rightarrow> bool" where
  "countsAsAttempt S s =
     (s \<notin> set [STATUS_ACCEPTED S, STATUS_COMPILE_ERROR S, STATUS_FORMAT_ERROR S])"

text \<open>The first line of the loop body: the entry is skipped (\<^verbatim>\<open>continue\<close>).\<close>

definition acm_skips :: "STATUS \<Rightarrow> bool \<Rightarrow> AcmState \<Rightarrow> AcmJournal \<Rightarrow> bool" where
  "acm_skips S submitAfterAccept st j =
     (\<not> submitAfterAccept \<and> displayAccepted S (st_display st) (pid j))"

text \<open>\<^verbatim>\<open>Math.floor((j.rid.getTimestamp().getTime() - tdoc.beginAt.getTime()) / 1000)\<close>\<close>

definition elapsedSeconds :: "tdoc \<Rightarrow> ObjectId \<Rightarrow> int" where
  "elapsedSeconds td r = (getTimestamp r - beginAt td) div 1000"

definition acm_detail_of :: "tdoc \<Rightarrow> Counter \<Rightarrow> AcmJournal \<Rightarrow> AcmDetail" where
  "acm_detail_of td nacc j =
     (let real = elapsedSeconds td (rid j);
          penalty = 20 * 60 * int (nacc (pid j))
      in AcmJournal.extend (j\<lparr>time := real + penalty\<rparr>)
           (AcmDetail.fields (nacc (pid j)) penalty real))"

text \<open>One iteration of \<^verbatim>\<open>for (const j of journal)\<close>.\<close>

definition acm_step :: "STATUS \<Rightarrow> bool \<Rightarrow> tdoc \<Rightarrow> date option \<Rightarrow> AcmJournal \<Rightarrow> AcmState \<Rightarrow> AcmState" where
  "acm_step S submitAfterAccept td l j st =
     (if acm_skips S submitAfterAccept st j then st
      else
        let d = acm_detail_of td (st_naccept st) j;
            detail' = AList.update (pid j) d (st_detail st);
            naccept' = (if countsAsAttempt S (status j)
                        then (st_naccept st)(pid j := st_naccept st (pid j) + 1)
                        else st_naccept st)
        in if afterLock l (rid j) then
             let npending' = (st_npending st)(pid j := st_npending st (pid j) + 1);
                 old = (case map_of (st_display st) (pid j) of
                          None \<Rightarrow> \<lparr>shown = None, npending = None\<rparr>
                        | Some e \<Rightarrow> e)
             in \<lparr>st_naccept = naccept', st_npending = npending',
                 st_display = AList.update (pid j) (old\<lparr>npending := Some (npending' (pid j))\<rparr>)
                                (st_display st),
                 st_detail = detail'\<rparr>
           else
             \<lparr>st_naccept = naccept', st_npending = st_npending st,
              st_display = AList.update (pid j) \<lparr>shown = Some d, npending = None\<rparr> (st_display st),
              st_detail = detail'\<rparr>)"

definition acm_init :: AcmState where
  "acm_init = \<lparr>st_naccept = (\<lambda>_. 0), st_npending = (\<lambda>_. 0), st_display = [], st_detail = []\<rparr>"

definition acm_loop :: "STATUS \<Rightarrow> bool \<Rightarrow> tdoc \<Rightarrow> date option \<Rightarrow> AcmJournal list \<Rightarrow> AcmState \<Rightarrow> AcmState" where
  "acm_loop S submitAfterAccept td l journal st = fold (acm_step S submitAfterAccept td l) journal st"

text \<open>
  The entries of \<^verbatim>\<open>display\<close> with \<^verbatim>\<open>i.status === STATUS.STATUS_ACCEPTED\<close>; an object with no
  \<^verbatim>\<open>status\<close> is not one of them.
\<close>

definition acceptedShown :: "STATUS \<Rightarrow> AcmDetail Display dict \<Rightarrow> AcmDetail list" where
  "acceptedShown S display =
     filter (\<lambda>e. status e = STATUS_ACCEPTED S)
       (concat (map (\<lambda>d. case shown d of None \<Rightarrow> [] | Some e \<Rightarrow> [e]) (map snd display)))"

text \<open>
  \<^verbatim>\<open>acm.stat\<close>. \<open>submitAfterAccept\<close> is \<^verbatim>\<open>this.submitAfterAccept\<close> (\<^verbatim>\<open>false\<close> in the rule
  \<^verbatim>\<open>acm\<close>), \<open>now\<close> the instant \<^verbatim>\<open>isLocked\<close> reads.
\<close>

definition acm_stat :: "STATUS \<Rightarrow> bool \<Rightarrow> tdoc \<Rightarrow> date \<Rightarrow> AcmJournal list \<Rightarrow> AcmStat" where
  "acm_stat S submitAfterAccept td now journal =
     (let st = acm_loop S submitAfterAccept td (effectiveLockAt td now) journal acm_init;
          acc = acceptedShown S (st_display st)
      in \<lparr>stat_accept = length acc,
          stat_time = sum_list (map time acc),
          stat_detail = st_detail st,
          stat_display = st_display st\<rparr>)"

subsection \<open>The OI and IOI rules: \<^verbatim>\<open>oi.stat\<close>\<close>

text \<open>
  \<^verbatim>\<open>SubtaskResult\<close> has a score and a status. An entry of the journal of the OI family has
  its \<^verbatim>\<open>subtasks\<close> (a dictionary read only with \<^verbatim>\<open>for ... in\<close>, so an absent one is the
  empty one), and it may carry the field \<^verbatim>\<open>npending\<close> (\<open>j_npending\<close> here) that an earlier
  run of \<^verbatim>\<open>oi.stat\<close> wrote into it: \<^verbatim>\<open>display[j.pid] = j\<close> stores the entry itself, and
  \<^verbatim>\<open>display[j.pid].npending = ...\<close> writes into that object.
\<close>

type_synonym SubtaskResult = "int Scored"

record 'st OiJournal = "'st Journal" +
  subtasks :: "SubtaskResult dict"
  j_npending :: "nat option"

record OiState =
  oi_npending :: Counter
  oi_detail :: "int OiJournal dict"
  oi_display :: "int OiJournal Display dict"

record OiStat =
  oi_stat_score :: int
  oi_stat_detail :: "int OiJournal dict"
  oi_stat_display :: "int OiJournal Display dict"

text \<open>\<^verbatim>\<open>!detail[j.pid] || detail[j.pid].score < j.score || this.submitAfterAccept\<close>\<close>

definition oi_takes :: "bool \<Rightarrow> OiState \<Rightarrow> int OiJournal \<Rightarrow> bool" where
  "oi_takes submitAfterAccept st j =
     (case map_of (oi_detail st) (pid j) of
        None \<Rightarrow> True
      | Some d \<Rightarrow> score d < score j \<or> submitAfterAccept)"

text \<open>\<^verbatim>\<open>display[j.pid] ||= {}\<close>\<close>

definition orEmpty :: "'a Display dict \<Rightarrow> int \<Rightarrow> 'a Display dict" where
  "orEmpty display p =
     (case map_of display p of
        None \<Rightarrow> AList.update p \<lparr>shown = None, npending = None\<rparr> display
      | Some _ \<Rightarrow> display)"

text \<open>\<^verbatim>\<open>display[j.pid].npending = n\<close>, for a key that is there.\<close>

definition setNpending :: "'a Display dict \<Rightarrow> int \<Rightarrow> nat \<Rightarrow> 'a Display dict" where
  "setNpending display p n =
     (case map_of display p of
        None \<Rightarrow> display
      | Some e \<Rightarrow> AList.update p (e\<lparr>npending := Some n\<rparr>) display)"

definition oi_step :: "bool \<Rightarrow> date option \<Rightarrow> int OiJournal \<Rightarrow> OiState \<Rightarrow> OiState" where
  "oi_step submitAfterAccept l j st =
     (if oi_takes submitAfterAccept st j then
        let detail' = AList.update (pid j) j (oi_detail st);
            display' = orEmpty (oi_display st) (pid j)
        in if afterLock l (rid j) then
             let npending' = (oi_npending st)(pid j := oi_npending st (pid j) + 1)
             in \<lparr>oi_npending = npending', oi_detail = detail',
                 oi_display = setNpending display' (pid j) (npending' (pid j))\<rparr>
           else
             \<lparr>oi_npending = oi_npending st, oi_detail = detail',
              oi_display = AList.update (pid j) \<lparr>shown = Some j, npending = j_npending j\<rparr> display'\<rparr>
      else st)"

definition oi_init :: OiState where
  "oi_init = \<lparr>oi_npending = (\<lambda>_. 0), oi_detail = [], oi_display = []\<rparr>"

definition oi_loop :: "bool \<Rightarrow> date option \<Rightarrow> int OiJournal list \<Rightarrow> OiState \<Rightarrow> OiState" where
  "oi_loop submitAfterAccept l journal st = fold (oi_step submitAfterAccept l) journal st"

text \<open>\<^verbatim>\<open>journal.filter((i) => tdoc.pids.includes(i.pid))\<close>\<close>

definition inPids :: "tdoc \<Rightarrow> ('st, 'a) Journal_scheme list \<Rightarrow> ('st, 'a) Journal_scheme list" where
  "inPids td journal = filter (\<lambda>i. pid i \<in> set (pids td)) journal"

text \<open>\<^verbatim>\<open>display[i].score || 0\<close>\<close>

definition shownScore :: "int OiJournal Display \<Rightarrow> int" where
  "shownScore d = (case shown d of None \<Rightarrow> 0 | Some e \<Rightarrow> score e)"

text \<open>
  \<^verbatim>\<open>oi.stat\<close>; \<open>submitAfterAccept\<close> is \<^verbatim>\<open>this.submitAfterAccept\<close>: \<^verbatim>\<open>true\<close> in the rule
  \<^verbatim>\<open>oi\<close>, \<^verbatim>\<open>false\<close> in \<^verbatim>\<open>ioi\<close>, which inherits this function.
\<close>

definition oi_stat :: "bool \<Rightarrow> tdoc \<Rightarrow> date \<Rightarrow> int OiJournal list \<Rightarrow> OiStat" where
  "oi_stat submitAfterAccept td now journal =
     (let st = oi_loop submitAfterAccept (effectiveLockAt td now) (inPids td journal) oi_init
      in \<lparr>oi_stat_score = sum_list (map shownScore (map snd (oi_display st))),
          oi_stat_detail = oi_detail st,
          oi_stat_display = oi_display st\<rparr>)"

subsection \<open>Time order of a journal and the frozen view\<close>

text \<open>
  \<^verbatim>\<open>_getStatusJournal\<close>: \<^verbatim>\<open>tsdoc.journal.sort((a, b) => a.rid.getTimestamp() - b.rid.getTimestamp())\<close>,
  a stable sort by submission instant. Both callers of \<^verbatim>\<open>stat\<close> (\<^verbatim>\<open>_updateStatus\<close>,
  \<^verbatim>\<open>recalcStatus\<close>) pass it the journal sorted so.
\<close>

definition getStatusJournal :: "('st, 'a) Journal_scheme list \<Rightarrow> ('st, 'a) Journal_scheme list" where
  "getStatusJournal journal = sort_key (\<lambda>j. getTimestamp (rid j)) journal"

definition timeOrdered :: "('st, 'a) Journal_scheme list \<Rightarrow> bool" where
  "timeOrdered journal =
     sorted_wrt (\<lambda>a b. getTimestamp (rid a) \<le> getTimestamp (rid b)) journal"

text \<open>The journal truncated at an instant: the entries submitted no later than it.\<close>

definition truncateAt :: "date \<Rightarrow> ('st, 'a) Journal_scheme list \<Rightarrow> ('st, 'a) Journal_scheme list" where
  "truncateAt l journal = filter (\<lambda>j. getTimestamp (rid j) \<le> l) journal"

text \<open>
  What \<^verbatim>\<open>display[p]\<close> exposes of a submission: every field but \<^verbatim>\<open>npending\<close> (the submission
  identifier with its instant, the score, the verdict, and for ACM the times and the attempt
  count), or nothing when the key is absent or holds only a pending counter.
\<close>

definition exposed :: "'a Display dict \<Rightarrow> int \<Rightarrow> 'a option" where
  "exposed display p = (case map_of display p of None \<Rightarrow> None | Some d \<Rightarrow> shown d)"

text \<open>The submissions held by the values of \<^verbatim>\<open>display\<close>, in the order of \<^verbatim>\<open>Object.values\<close>.\<close>

definition shownList :: "'a Display dict \<Rightarrow> 'a list" where
  "shownList display =
     concat (map (\<lambda>d. case shown d of None \<Rightarrow> [] | Some e \<Rightarrow> [e]) (map snd display))"

subsection \<open>Example data\<close>

definition ex_status :: STATUS where
  "ex_status = \<lparr>STATUS_ACCEPTED = 1, STATUS_COMPILE_ERROR = 7, STATUS_FORMAT_ERROR = 31\<rparr>"

definition ex_tdoc :: tdoc where
  "ex_tdoc = \<lparr>rule = ''acm'', beginAt = 0, endAt = 10000000, lockAt = Some 5000000,
     unlocked = False, duration = None, pids = [1, 2], penaltySince = 0, penaltyRules = []\<rparr>"

definition acm_entry :: "date \<Rightarrow> int \<Rightarrow> int \<Rightarrow> AcmJournal" where
  "acm_entry t p s =
     \<lparr>score = 0, status = s, rid = \<lparr>getTimestamp = t, oid = 0\<rparr>, pid = p, time = 0\<rparr>"

definition oi_entry :: "date \<Rightarrow> int \<Rightarrow> int \<Rightarrow> int \<Rightarrow> int OiJournal" where
  "oi_entry t p s sc =
     \<lparr>score = sc, status = s, rid = \<lparr>getTimestamp = t, oid = 0\<rparr>, pid = p,
      subtasks = [], j_npending = None\<rparr>"

subsection \<open>Attempts counted by the ACM rule\<close>

text \<open>
  The attempts on problem \<open>p\<close> among the entries \<open>pre\<close> whose status is neither accepted,
  compile error nor format error.
\<close>

definition priorAttempts :: "STATUS \<Rightarrow> AcmJournal list \<Rightarrow> int \<Rightarrow> nat" where
  "priorAttempts S pre p = length (filter (\<lambda>i. pid i = p \<and> countsAsAttempt S (status i)) pre)"

subsection \<open>The strict IOI rule: \<^verbatim>\<open>strictioi.stat\<close>\<close>

text \<open>
  \<^verbatim>\<open>Math.max(...xs)\<close> is \<^verbatim>\<open>-Infinity\<close> on no argument, so the status that \<^verbatim>\<open>strictioi.stat\<close>
  writes into a journal entry is a number of this type.
\<close>

datatype jsnum = NegInfinity | Num int

definition Math_max :: "int list \<Rightarrow> jsnum" where
  "Math_max xs = (case xs of [] \<Rightarrow> NegInfinity | x # r \<Rightarrow> Num (fold max r x))"

text \<open>
  \<^verbatim>\<open>for (const i in j.subtasks) if (!subtasks[i] || subtasks[i].score < j.subtasks[i].score)
  subtasks[i] = j.subtasks[i]\<close>
\<close>

definition mergeSubtasks :: "SubtaskResult dict \<Rightarrow> SubtaskResult dict \<Rightarrow> SubtaskResult dict" where
  "mergeSubtasks acc subs =
     fold (\<lambda>(i, r) a.
            case map_of a i of
              None \<Rightarrow> AList.update i r a
            | Some b \<Rightarrow> if score b < score r then AList.update i r a else a)
          subs acc"

text \<open>
  The loop writes into the entry \<open>j\<close> itself (\<^verbatim>\<open>j.score\<close>, \<^verbatim>\<open>j.status\<close>, \<^verbatim>\<open>j.subtasks\<close>), and
  \<^verbatim>\<open>detail[j.pid] = j\<close> stores that object: the state keeps the entries written so far
  (\<open>si_journal\<close>), which are the entries of the caller's journal after the call.
  \<^verbatim>\<open>j.subtasks = subtasks\<close> stores the accumulator object itself, which later iterations
  go on changing: when the loop ends, all the entries it went through hold the final
  accumulator (\<open>shareSubtasks\<close>).
\<close>

record StrictState =
  si_subtasks :: "SubtaskResult dict"
  si_detail :: "jsnum OiJournal dict"
  si_journal :: "jsnum OiJournal list"

record StrictStat =
  si_stat_score :: int
  si_stat_detail :: "jsnum OiJournal dict"

definition strictioi_step :: "jsnum OiJournal \<Rightarrow> StrictState \<Rightarrow> StrictState" where
  "strictioi_step j st =
     (let acc = mergeSubtasks (si_subtasks st) (subtasks j);
          j' = j\<lparr>score := sum_list (map (\<lambda>(i, r). score r) acc),
                 status := Math_max (map (\<lambda>(i, r). status r) acc),
                 subtasks := acc\<rparr>;
          detail' = (case map_of (si_detail st) (pid j) of
                       None \<Rightarrow> AList.update (pid j) j' (si_detail st)
                     | Some d \<Rightarrow> if score d < score j' then AList.update (pid j) j' (si_detail st)
                                 else si_detail st)
      in \<lparr>si_subtasks = acc, si_detail = detail', si_journal = si_journal st @ [j']\<rparr>)"

definition shareSubtasks :: "SubtaskResult dict \<Rightarrow> jsnum OiJournal \<Rightarrow> jsnum OiJournal" where
  "shareSubtasks final j = j\<lparr>subtasks := final\<rparr>"

text \<open>
  The caller's journal after the call: \<^verbatim>\<open>journal.filter(...)\<close> is a new array of the same
  objects, so the entries with a problem of \<^verbatim>\<open>pids\<close> are the written ones, in order, and
  the others are untouched.
\<close>

fun writeBack :: "tdoc \<Rightarrow> jsnum OiJournal list \<Rightarrow> jsnum OiJournal list \<Rightarrow> jsnum OiJournal list" where
  "writeBack td [] ws = []"
| "writeBack td (j # js) ws =
     (if pid j \<in> set (pids td)
      then (case ws of [] \<Rightarrow> j # writeBack td js [] | w # ws' \<Rightarrow> w # writeBack td js ws')
      else j # writeBack td js ws)"

text \<open>\<^verbatim>\<open>strictioi.stat\<close>: the aggregate, and the journal as the call leaves it.\<close>

definition strictioi_stat :: "tdoc \<Rightarrow> jsnum OiJournal list \<Rightarrow> StrictStat \<times> jsnum OiJournal list" where
  "strictioi_stat td journal =
     (let st = fold strictioi_step (inPids td journal)
                 \<lparr>si_subtasks = [], si_detail = [], si_journal = []\<rparr>;
          final = si_subtasks st;
          detail = map (\<lambda>(p, j). (p, shareSubtasks final j)) (si_detail st)
      in (\<lparr>si_stat_score = sum_list (map (\<lambda>(p, j). score j) detail),
           si_stat_detail = detail\<rparr>,
          writeBack td journal (map (shareSubtasks final) (si_journal st))))"

text \<open>
  \<^verbatim>\<open>recalcStatus\<close> on one status document: \<^verbatim>\<open>stat\<close> runs on the stored journal, which is the
  journal an earlier call (\<^verbatim>\<open>_updateStatus\<close> or \<^verbatim>\<open>recalcStatus\<close>) stored with
  \<^verbatim>\<open>revSetStatus(..., { journal, ...stats })\<close> after \<^verbatim>\<open>stat\<close> had written into its entries.
\<close>

definition strictioi_rerun :: "tdoc \<Rightarrow> jsnum OiJournal list \<Rightarrow> StrictStat" where
  "strictioi_rerun td journal =
     fst (strictioi_stat td (getStatusJournal (snd (strictioi_stat td (getStatusJournal journal)))))"

definition strict_entry :: "date \<Rightarrow> int \<Rightarrow> int \<Rightarrow> SubtaskResult dict \<Rightarrow> jsnum OiJournal" where
  "strict_entry t p sc subs =
     \<lparr>score = sc, status = Num 1, rid = \<lparr>getTimestamp = t, oid = 0\<rparr>, pid = p,
      subtasks = subs, j_npending = None\<rparr>"

subsection \<open>The Ledo rule: \<^verbatim>\<open>ledo.stat\<close>\<close>

text \<open>
  The numbers of \<^verbatim>\<open>Math.round(Math.max(0.7, 0.95 ** n) * j.score)\<close> are IEEE 754 doubles. A
  finite double is the rational it denotes; \<open>toDouble\<close> rounds a rational to the nearest
  double (53 significant bits, a tie to the even significand), as the literals \<^verbatim>\<open>0.7\<close> and
  \<^verbatim>\<open>0.95\<close> and the product \<^verbatim>\<open>*\<close> do. The ends of the exponent range are not modelled: the
  numbers here are products of a coefficient between 0.7 and 1 with a score.
  \<open>ilog2 x\<close> is the exponent \<open>e\<close> with \<open>2 ^ e \<le> x < 2 ^ (e + 1)\<close>, for \<open>x > 0\<close>.
\<close>

definition pow2 :: "int \<Rightarrow> rat" where
  "pow2 e = (if e \<ge> 0 then 2 ^ nat e else 1 / 2 ^ nat (- e))"

definition ilog2 :: "rat \<Rightarrow> int" where
  "ilog2 x = (let (p, q) = quotient_of x; e = bitlen p - bitlen q
              in if pow2 e \<le> x then e else e - 1)"

definition roundHalfEven :: "rat \<Rightarrow> int" where
  "roundHalfEven m =
     (let f = \<lfloor>m\<rfloor>; d = m - of_int f
      in if d < 1 / 2 then f else if d > 1 / 2 then f + 1
         else if even f then f else f + 1)"

definition toDouble :: "rat \<Rightarrow> rat" where
  "toDouble x =
     (if x = 0 then 0
      else let a = \<bar>x\<bar>; ulp = pow2 (ilog2 a - 52)
           in sgn x * of_int (roundHalfEven (a / ulp)) * ulp)"

text \<open>
  The operator \<^verbatim>\<open>**\<close> on numbers is implementation-approximated in ECMAScript, except that
  the exponent 0 gives 1: it is the parameter \<open>pow\<close> of the model. \<open>pow_nearest\<close> is the one
  that rounds the exact power to the nearest double.
\<close>

definition pow_nearest :: "rat \<Rightarrow> nat \<Rightarrow> rat" where
  "pow_nearest x k = toDouble (x ^ k)"

text \<open>
  \<^verbatim>\<open>Math.round(Math.max(0.7, 0.95 ** n) * score)\<close>: \<^verbatim>\<open>Math.max\<close> is exact, the product is
  rounded to a double, and \<^verbatim>\<open>Math.round\<close> of a double is the nearest integer, a half upwards
  (\<^const>\<open>round\<close>). A score is an integer that is a double.
\<close>

definition ledo_penaltyScore :: "(rat \<Rightarrow> nat \<Rightarrow> rat) \<Rightarrow> nat \<Rightarrow> int \<Rightarrow> int" where
  "ledo_penaltyScore pow n sc =
     round (toDouble (max (toDouble (7 / 10)) (pow (toDouble (19 / 20)) n) * of_int sc))"

text \<open>\<^verbatim>\<open>![STATUS.STATUS_COMPILE_ERROR, STATUS.STATUS_FORMAT_ERROR].includes(j.status)\<close>\<close>

definition ledo_valid :: "STATUS \<Rightarrow> int \<Rightarrow> bool" where
  "ledo_valid S s = (s \<notin> set [STATUS_COMPILE_ERROR S, STATUS_FORMAT_ERROR S])"

text \<open>
  \<^verbatim>\<open>{ ...j, penaltyScore, ntry: ntry[j.pid] - 1 }\<close>; the field \<^verbatim>\<open>ntry\<close> is \<open>-1\<close> for an entry
  that is not valid and has no valid entry before it.
\<close>

record LedoDetail = "int OiJournal" +
  penaltyScore :: int
  ntry :: int

record LedoState =
  ledo_ntry :: Counter
  ledo_detail :: "LedoDetail dict"

record LedoStat =
  ledo_stat_score :: int
  ledo_stat_originalScore :: int
  ledo_stat_detail :: "LedoDetail dict"

definition ledo_step ::
  "STATUS \<Rightarrow> (rat \<Rightarrow> nat \<Rightarrow> rat) \<Rightarrow> int OiJournal \<Rightarrow> LedoState \<Rightarrow> LedoState" where
  "ledo_step S pow j st =
     (let vaild = ledo_valid S (status j);
          ntry' = (if vaild then (ledo_ntry st)(pid j := ledo_ntry st (pid j) + 1) else ledo_ntry st);
          penaltyScore = (if vaild then ledo_penaltyScore pow (ntry' (pid j) - 1) (score j) else 0);
          d = OiJournal.extend j (LedoDetail.fields penaltyScore (int (ntry' (pid j)) - 1))
      in \<lparr>ledo_ntry = ntry',
          ledo_detail =
            (case map_of (ledo_detail st) (pid j) of
               None \<Rightarrow> AList.update (pid j) d (ledo_detail st)
             | Some old \<Rightarrow>
                 if LedoDetail.penaltyScore old < penaltyScore
                 then AList.update (pid j) d (ledo_detail st)
                 else ledo_detail st)\<rparr>)"

definition ledo_init :: LedoState where
  "ledo_init = \<lparr>ledo_ntry = (\<lambda>_. 0), ledo_detail = []\<rparr>"

definition ledo_loop ::
  "STATUS \<Rightarrow> (rat \<Rightarrow> nat \<Rightarrow> rat) \<Rightarrow> int OiJournal list \<Rightarrow> LedoState \<Rightarrow> LedoState" where
  "ledo_loop S pow journal st = fold (ledo_step S pow) journal st"

text \<open>
  \<^verbatim>\<open>for (const pid of tdoc.pids) { if (!detail[pid]) continue; score += ...; originalScore += ... }\<close>
\<close>

definition ledo_stat ::
  "STATUS \<Rightarrow> (rat \<Rightarrow> nat \<Rightarrow> rat) \<Rightarrow> tdoc \<Rightarrow> int OiJournal list \<Rightarrow> LedoStat" where
  "ledo_stat S pow td journal =
     (let detail = ledo_detail (ledo_loop S pow (inPids td journal) ledo_init)
      in \<lparr>ledo_stat_score =
            sum_list (map (\<lambda>p. case map_of detail p of None \<Rightarrow> 0 | Some d \<Rightarrow> penaltyScore d) (pids td)),
          ledo_stat_originalScore =
            sum_list (map (\<lambda>p. case map_of detail p of None \<Rightarrow> 0 | Some d \<Rightarrow> score d) (pids td)),
          ledo_stat_detail = detail\<rparr>)"

subsection \<open>The homework rule: \<^verbatim>\<open>homework.stat\<close>\<close>

text \<open>
  The entries of \<^verbatim>\<open>effective\<close> get the fields \<^verbatim>\<open>penaltyScore\<close> and \<^verbatim>\<open>time\<close> (\<open>hw_penaltyScore\<close>
  and \<open>hw_time\<close> here, the names being those of fields of other records): a coefficient of
  \<^verbatim>\<open>penaltyRules\<close> is any number, so the penalized score is a rational.
\<close>

record HomeworkDetail = "int Journal" +
  hw_penaltyScore :: rat
  hw_time :: int

record HomeworkStat =
  hw_stat_score :: int
  hw_stat_penaltyScore :: rat
  hw_stat_time :: int
  hw_stat_detail :: "HomeworkDetail dict"

text \<open>
  The loop over the keys of \<^verbatim>\<open>penaltyRules\<close>, sorted ascending, with its \<^verbatim>\<open>break\<close>:
  \<^verbatim>\<open>if (i * 3600 <= exceedSeconds) coefficient = tdoc.penaltyRules[i]; else break;\<close>
\<close>

fun penaltyCoefficient :: "(rat \<times> rat) list \<Rightarrow> int \<Rightarrow> rat \<Rightarrow> rat" where
  "penaltyCoefficient [] exceedSeconds coefficient = coefficient"
| "penaltyCoefficient ((i, c) # rules) exceedSeconds coefficient =
     (if i * 3600 \<le> of_int exceedSeconds then penaltyCoefficient rules exceedSeconds c
      else coefficient)"

definition hw_penaltyScoreOf :: "tdoc \<Rightarrow> int Journal \<Rightarrow> rat" where
  "hw_penaltyScoreOf td jdoc =
     (let exceedSeconds = (getTimestamp (rid jdoc) - penaltySince td) div 1000
      in if exceedSeconds < 0 then of_int (score jdoc)
         else of_int (score jdoc) * penaltyCoefficient (sort_key fst (penaltyRules td)) exceedSeconds 1)"

text \<open>
  Modelled from the spec: \<^verbatim>\<open>Math.sum\<close> is not a function of JavaScript and its definition (the
  utilities package adds it to \<^verbatim>\<open>Math\<close>) is not among the sources. The specification takes it
  for the sum of the derived per-entry times and requires that the total-time reducer
  ``applied to an empty or non-numeric set must yield zero, not fail''.
\<close>

definition Math_sum :: "int list \<Rightarrow> int" where
  "Math_sum xs = sum_list xs"

text \<open>
  \<^verbatim>\<open>homework.stat\<close>. \<^verbatim>\<open>effective[j.pid] = j\<close> keeps the last entry of each problem of \<^verbatim>\<open>pids\<close>;
  \<^verbatim>\<open>sumBy\<close> is the sum of a field, 0 on the empty array.
\<close>

definition hw_effective :: "tdoc \<Rightarrow> int Journal list \<Rightarrow> int Journal dict" where
  "hw_effective td journal =
     fold (\<lambda>j eff. if pid j \<in> set (pids td) then AList.update (pid j) j eff else eff) journal []"

definition homework_stat :: "tdoc \<Rightarrow> int Journal list \<Rightarrow> HomeworkStat" where
  "homework_stat td journal =
     (let effective =
            map (\<lambda>(p, j). (p, Journal.extend j
                   (HomeworkDetail.fields (hw_penaltyScoreOf td j) (elapsedSeconds td (rid j)))))
                (hw_effective td journal);
          detail = map snd effective
      in \<lparr>hw_stat_score = sum_list (map score detail),
          hw_stat_penaltyScore = sum_list (map hw_penaltyScore detail),
          hw_stat_time = Math_sum (map hw_time detail),
          hw_stat_detail = effective\<rparr>)"

subsection \<open>Example journals\<close>

definition ex_subtask :: "int \<Rightarrow> SubtaskResult" where
  "ex_subtask sc = \<lparr>score = sc, status = 1\<rparr>"

definition ex_strict_journal :: "jsnum OiJournal list" where
  "ex_strict_journal =
     [strict_entry 1000000 1 10 [(0, ex_subtask 10)],
      strict_entry 2000000 2 20 [(0, ex_subtask 20)]]"


text \<open>
  A contest that begins 100 s after the epoch, and entries on problem 1: a wrong answer, a
  compile error, a format error, a wrong answer on problem 2, a wrong answer.
\<close>

definition ex_tdoc_late :: tdoc where
  "ex_tdoc_late = ex_tdoc\<lparr>beginAt := 100000\<rparr>"

definition ex_acm_pre :: "AcmJournal list" where
  "ex_acm_pre =
     [acm_entry 1100000 1 2, acm_entry 1500000 1 7, acm_entry 1700000 1 31,
      acm_entry 1900000 2 2, acm_entry 2100000 1 2]"

subsection \<open>Ranking\<close>

text \<open>
  Modelled from the spec: \<^verbatim>\<open>ranked\<close> is imported from \<^verbatim>\<open>../lib/rank\<close>, which is not among the
  sources. The specification (4.1): on a sequence already sorted, with a tie predicate over
  adjacent elements, ``equal-by-predicate elements receive the same rank; the next distinct
  element receives a rank equal to its 1-based position in the sequence''. \<open>rankFrom\<close> goes
  along the sequence with the position \<open>pos\<close> of the next element, the rank \<open>r\<close> and the
  element \<open>prev\<close> before it.
\<close>

fun rankFrom :: "('a \<Rightarrow> 'a \<Rightarrow> bool) \<Rightarrow> nat \<Rightarrow> nat \<Rightarrow> 'a \<Rightarrow> 'a list \<Rightarrow> (nat \<times> 'a) list" where
  "rankFrom equ pos r prev [] = []"
| "rankFrom equ pos r prev (x # xs) =
     (let r' = (if equ prev x then r else pos)
      in (r', x) # rankFrom equ (pos + 1) r' x xs)"

fun ranked :: "('a \<Rightarrow> 'a \<Rightarrow> bool) \<Rightarrow> 'a list \<Rightarrow> (nat \<times> 'a) list" where
  "ranked equ [] = []"
| "ranked equ (x # xs) = (1, x) # rankFrom equ 2 1 x xs"

text \<open>
  The tie predicates of the ACM rule. In \<^verbatim>\<open>acm.scoreboard\<close>:
  \<^verbatim>\<open>(a, b) => a.score === b.score && a.time === b.time\<close>; in \<^verbatim>\<open>acm.ranked\<close>:
  \<^verbatim>\<open>(a, b) => a.accept === b.accept && a.time === b.time\<close>. \<^verbatim>\<open>===\<close> on two numbers or two
  \<^verbatim>\<open>undefined\<close> is the equality of \<^typ>\<open>int option\<close>.
\<close>

definition acm_scoreboard_equ :: "tsdoc \<Rightarrow> tsdoc \<Rightarrow> bool" where
  "acm_scoreboard_equ a b = (ts_score a = ts_score b \<and> ts_time a = ts_time b)"

definition acm_ranked_equ :: "tsdoc \<Rightarrow> tsdoc \<Rightarrow> bool" where
  "acm_ranked_equ a b = (ts_accept a = ts_accept b \<and> ts_time a = ts_time b)"

definition oi_equ :: "tsdoc \<Rightarrow> tsdoc \<Rightarrow> bool" where
  "oi_equ a b = (ts_score a = ts_score b)"

text \<open>\<^verbatim>\<open>acm.ranked\<close>: \<^verbatim>\<open>ranked(cursor, (a, b) => a.accept === b.accept && a.time === b.time)\<close>\<close>

definition acm_ranked :: "tsdoc list \<Rightarrow> (nat \<times> tsdoc) list" where
  "acm_ranked cursor = ranked acm_ranked_equ cursor"

text \<open>
  The status document that \<^verbatim>\<open>_updateStatus\<close> stores for the ACM rule: \<^verbatim>\<open>{ journal, ...stats }\<close>
  with the fields \<^verbatim>\<open>accept\<close>, \<^verbatim>\<open>time\<close>, \<^verbatim>\<open>detail\<close>, \<^verbatim>\<open>display\<close> of \<^verbatim>\<open>acm.stat\<close>, and no
  \<^verbatim>\<open>score\<close>.
\<close>

definition acm_tsdoc :: "int \<Rightarrow> AcmStat \<Rightarrow> tsdoc" where
  "acm_tsdoc u stats =
     \<lparr>uid = u, startAt = None, ts_score = None,
      ts_accept = Some (int (stat_accept stats)), ts_time = Some (stat_time stats)\<rparr>"

subsection \<open>Rules and their composition: \<^verbatim>\<open>buildContestRule\<close>\<close>

text \<open>
  A rule object has the four function fields that \<^verbatim>\<open>buildContestRule\<close> binds, and other
  fields (\<^verbatim>\<open>TEXT\<close>, \<^verbatim>\<open>hidden\<close>, \<^verbatim>\<open>submitAfterAccept\<close>, \<^verbatim>\<open>statusSort\<close>, \<^verbatim>\<open>check\<close>, the three
  visibility predicates, \<^verbatim>\<open>ranked\<close>), which are a dictionary from the field's name to its
  value, so that the object spread \<^verbatim>\<open>{ ...baseRule, ...def }\<close> is the override \<open>++\<close> of maps.
\<close>

datatype field =
    Str string
  | Bool bool
  | Sort "(string \<times> int) list"
  | Check
  | Pred "tdoc \<Rightarrow> date \<Rightarrow> bool"
  | Tie "tsdoc \<Rightarrow> tsdoc \<Rightarrow> bool"

type_synonym fields = "string \<rightharpoonup> field"

text \<open>\<^verbatim>\<open>this.submitAfterAccept\<close> as a condition: an absent field, \<^verbatim>\<open>false\<close> and \<^verbatim>\<open>''\<close> are falsy.\<close>

definition truthy :: "field option \<Rightarrow> bool" where
  "truthy v = (case v of None \<Rightarrow> False | Some (Bool b) \<Rightarrow> b | Some (Str s) \<Rightarrow> s \<noteq> [] | Some _ \<Rightarrow> True)"

text \<open>
  \<open>this\<close> as the bodies of the source read it. \<^verbatim>\<open>stat\<close> reads \<^verbatim>\<open>this.submitAfterAccept\<close>, and
  \<^verbatim>\<open>scoreboardHeader\<close> and \<^verbatim>\<open>scoreboardRow\<close> read nothing of \<^verbatim>\<open>this\<close>: their \<open>this\<close> is the
  dictionary of the fields. \<^verbatim>\<open>scoreboard\<close> calls \<^verbatim>\<open>this.scoreboardHeader\<close> and
  \<^verbatim>\<open>this.scoreboardRow\<close>: its \<open>this\<close> has these two bound functions too. \<open>'e\<close> stands for the
  arguments a renderer gets besides the rank and the status document (\<^verbatim>\<open>config\<close>, \<^verbatim>\<open>_\<close>,
  \<^verbatim>\<open>tdoc\<close>, \<^verbatim>\<open>pdict\<close>, the users and \<^verbatim>\<open>meta\<close>), \<open>'r\<close> for a row, \<open>'j\<close> and \<open>'g\<close> for the journal
  and the aggregate of \<^verbatim>\<open>stat\<close>.
\<close>

record ('e, 'r) This =
  this_fields :: fields
  this_scoreboardHeader :: "'e \<Rightarrow> 'r"
  this_scoreboardRow :: "'e \<Rightarrow> nat \<Rightarrow> tsdoc \<Rightarrow> 'r"

text \<open>The table \<^verbatim>\<open>f\<close> of the functions as written, before \<^verbatim>\<open>bind\<close> (\<^verbatim>\<open>rule._originalRule\<close>).\<close>

record ('e, 'r, 'j, 'g) Funcs =
  f_scoreboard :: "('e, 'r) This \<Rightarrow> 'e \<Rightarrow> tsdoc list \<Rightarrow> 'r list"
  f_scoreboardRow :: "fields \<Rightarrow> 'e \<Rightarrow> nat \<Rightarrow> tsdoc \<Rightarrow> 'r"
  f_scoreboardHeader :: "fields \<Rightarrow> 'e \<Rightarrow> 'r"
  f_stat :: "fields \<Rightarrow> tdoc \<Rightarrow> 'j \<Rightarrow> 'g"

text \<open>A definition \<^verbatim>\<open>def: Partial<ContestRule>\<close>: any of the four functions may be absent.\<close>

record ('e, 'r, 'j, 'g) RuleDef =
  d_fields :: fields
  d_scoreboard :: "(('e, 'r) This \<Rightarrow> 'e \<Rightarrow> tsdoc list \<Rightarrow> 'r list) option"
  d_scoreboardRow :: "(fields \<Rightarrow> 'e \<Rightarrow> nat \<Rightarrow> tsdoc \<Rightarrow> 'r) option"
  d_scoreboardHeader :: "(fields \<Rightarrow> 'e \<Rightarrow> 'r) option"
  d_stat :: "(fields \<Rightarrow> tdoc \<Rightarrow> 'j \<Rightarrow> 'g) option"

text \<open>A built rule: its fields (\<open>rule_fields\<close>), its four bound functions and \<^verbatim>\<open>_originalRule\<close>.\<close>

record ('e, 'r, 'j, 'g) ContestRule =
  rule_fields :: fields
  scoreboard :: "'e \<Rightarrow> tsdoc list \<Rightarrow> 'r list"
  scoreboardRow :: "'e \<Rightarrow> nat \<Rightarrow> tsdoc \<Rightarrow> 'r"
  scoreboardHeader :: "'e \<Rightarrow> 'r"
  stat :: "tdoc \<Rightarrow> 'j \<Rightarrow> 'g"
  originalRule :: "('e, 'r, 'j, 'g) Funcs"

datatype error = TypeError | ValidationError "string list" | ContestNotFoundError

text \<open>\<^verbatim>\<open>def[key] || base[key]\<close>, with \<^verbatim>\<open>base = baseRule._originalRule || {}\<close>\<close>

definition orBase :: "'f option \<Rightarrow> 'b option \<Rightarrow> ('b \<Rightarrow> 'f) \<Rightarrow> 'f option" where
  "orBase d base sel = (case d of Some f \<Rightarrow> Some f | None \<Rightarrow> map_option sel base)"

text \<open>
  \<^verbatim>\<open>buildContestRule(def, baseRule)\<close>; \<open>baseRule\<close> is \<^term>\<open>None\<close> for the call with one argument
  (\<^verbatim>\<open>baseRule = {}\<close>). \<^verbatim>\<open>f[key].bind(rule)\<close> on an absent \<^verbatim>\<open>f[key]\<close> is a \<^verbatim>\<open>TypeError\<close>. The
  bound functions get the object \<^verbatim>\<open>rule\<close> under construction for \<open>this\<close>: its fields
  \<open>fs\<close>, and its own bound \<^verbatim>\<open>scoreboardHeader\<close> and \<^verbatim>\<open>scoreboardRow\<close>.
\<close>

definition buildContestRule ::
  "('e, 'r, 'j, 'g) RuleDef \<Rightarrow> ('e, 'r, 'j, 'g) ContestRule option
     \<Rightarrow> error + ('e, 'r, 'j, 'g) ContestRule" where
  "buildContestRule def baseRule =
     (let base = map_option originalRule baseRule;
          fs = (case baseRule of None \<Rightarrow> Map.empty | Some b \<Rightarrow> rule_fields b) ++ d_fields def
      in case (orBase (d_scoreboard def) base f_scoreboard,
               orBase (d_scoreboardRow def) base f_scoreboardRow,
               orBase (d_scoreboardHeader def) base f_scoreboardHeader,
               orBase (d_stat def) base f_stat) of
           (Some sb, Some row, Some header, Some st) \<Rightarrow>
             Inr \<lparr>rule_fields = fs,
                  scoreboard = sb \<lparr>this_fields = fs, this_scoreboardHeader = header fs,
                                   this_scoreboardRow = row fs\<rparr>,
                  scoreboardRow = row fs,
                  scoreboardHeader = header fs,
                  stat = st fs,
                  originalRule = \<lparr>f_scoreboard = sb, f_scoreboardRow = row,
                                  f_scoreboardHeader = header, f_stat = st\<rparr>\<rparr>
         | _ \<Rightarrow> Inl TypeError)"

text \<open>
  The order of \<^verbatim>\<open>acm.scoreboard\<close> (and of \<^verbatim>\<open>oi.scoreboard\<close> with \<open>oi_equ\<close>): rank the status
  documents, build the header with \<^verbatim>\<open>this.scoreboardHeader\<close>, then one row for each ranked
  document with \<^verbatim>\<open>this.scoreboardRow\<close>. The lookups of the users and of the first accepted
  submissions, which the source passes on to the rows, are in \<open>env\<close>.
\<close>

definition scoreboardWith ::
  "(tsdoc \<Rightarrow> tsdoc \<Rightarrow> bool) \<Rightarrow> ('e, 'r) This \<Rightarrow> 'e \<Rightarrow> tsdoc list \<Rightarrow> 'r list" where
  "scoreboardWith equ this env cursor =
     (let rankedTsdocs = ranked equ cursor;
          columns = this_scoreboardHeader this env
      in columns # map (\<lambda>(rank, tsdoc). this_scoreboardRow this env rank tsdoc) rankedTsdocs)"

definition acm_scoreboard :: "('e, 'r) This \<Rightarrow> 'e \<Rightarrow> tsdoc list \<Rightarrow> 'r list" where
  "acm_scoreboard = scoreboardWith acm_scoreboard_equ"

definition oi_scoreboard :: "('e, 'r) This \<Rightarrow> 'e \<Rightarrow> tsdoc list \<Rightarrow> 'r list" where
  "oi_scoreboard = scoreboardWith oi_equ"

text \<open>The ranks that \<^verbatim>\<open>acm.scoreboard\<close> passes to the rows.\<close>

definition acm_scoreboard_ranks :: "tsdoc list \<Rightarrow> (nat \<times> tsdoc) list" where
  "acm_scoreboard_ranks cursor = ranked acm_scoreboard_equ cursor"

subsection \<open>The rules \<^verbatim>\<open>oi\<close> and \<^verbatim>\<open>ioi\<close> as definitions\<close>

text \<open>
  \<^verbatim>\<open>oi.stat\<close> as a function of \<open>this\<close>: \<^verbatim>\<open>this.submitAfterAccept\<close> is read in the fields of the
  rule it is bound to. The instant read by \<^verbatim>\<open>isLocked\<close> comes with the journal.
\<close>

definition oi_stat_this :: "fields \<Rightarrow> tdoc \<Rightarrow> date \<times> int OiJournal list \<Rightarrow> OiStat" where
  "oi_stat_this this td nj = oi_stat (truthy (this ''submitAfterAccept'')) td (fst nj) (snd nj)"

text \<open>
  The definition given for \<^verbatim>\<open>oi\<close>, with its renderers \<open>header\<close> and \<open>row\<close> as parameters,
  and the one given for \<^verbatim>\<open>ioi\<close>, which has no function of the four.
\<close>

definition oi_def ::
  "(fields \<Rightarrow> 'e \<Rightarrow> 'r) \<Rightarrow> (fields \<Rightarrow> 'e \<Rightarrow> nat \<Rightarrow> tsdoc \<Rightarrow> 'r)
     \<Rightarrow> ('e, 'r, date \<times> int OiJournal list, OiStat) RuleDef" where
  "oi_def header row =
     \<lparr>d_fields = [''TEXT'' \<mapsto> Str ''OI'', ''check'' \<mapsto> Check, ''submitAfterAccept'' \<mapsto> Bool True,
                  ''statusSort'' \<mapsto> Sort [(''score'', -1)],
                  ''showScoreboard'' \<mapsto> Pred (\<lambda>td now. now > endAt td),
                  ''showSelfRecord'' \<mapsto> Pred (\<lambda>td now. now > endAt td),
                  ''showRecord'' \<mapsto> Pred (\<lambda>td now. now > endAt td \<and> \<not> isLocked td now),
                  ''ranked'' \<mapsto> Tie oi_equ],
      d_scoreboard = Some oi_scoreboard, d_scoreboardRow = Some row,
      d_scoreboardHeader = Some header, d_stat = Some oi_stat_this\<rparr>"

definition ioi_def :: "('e, 'r, date \<times> int OiJournal list, OiStat) RuleDef" where
  "ioi_def =
     \<lparr>d_fields = [''TEXT'' \<mapsto> Str ''IOI'', ''submitAfterAccept'' \<mapsto> Bool False,
                  ''showRecord'' \<mapsto> Pred (\<lambda>td now. now > endAt td),
                  ''showSelfRecord'' \<mapsto> Pred (\<lambda>td now. True),
                  ''showScoreboard'' \<mapsto> Pred (\<lambda>td now. now > beginAt td)],
      d_scoreboard = None, d_scoreboardRow = None, d_scoreboardHeader = None, d_stat = None\<rparr>"

subsection \<open>Creating and editing a contest: \<^verbatim>\<open>add\<close>, \<^verbatim>\<open>edit\<close>\<close>

text \<open>
  The keys of \<^verbatim>\<open>RULES\<close>. The \<^verbatim>\<open>check\<close> of each of the six rules is \<^verbatim>\<open>() => { }\<close> (\<^verbatim>\<open>ioi\<close> and
  \<^verbatim>\<open>strictioi\<close> inherit that of \<^verbatim>\<open>oi\<close>). \<^verbatim>\<open>RULES\<close> is an object literal, so \<^verbatim>\<open>RULES[rule]\<close> is
  also truthy at the names every object inherits, where it is no rule and has no \<^verbatim>\<open>check\<close>:
  calling it is a \<^verbatim>\<open>TypeError\<close>.
\<close>

definition RULES :: "string list" where
  "RULES = [''acm'', ''oi'', ''homework'', ''ioi'', ''ledo'', ''strictioi'']"

definition inheritedKeys :: "string list" where
  "inheritedKeys =
     [''constructor'', ''__proto__'', ''hasOwnProperty'', ''isPrototypeOf'',
      ''propertyIsEnumerable'', ''toLocaleString'', ''toString'', ''valueOf'',
      ''__defineGetter__'', ''__defineSetter__'', ''__lookupGetter__'', ''__lookupSetter__'']"

text \<open>\<^verbatim>\<open>RULES[rule]\<close> as a condition.\<close>

definition hasRule :: "string \<Rightarrow> bool" where
  "hasRule r = (r \<in> set RULES \<or> r \<in> set inheritedKeys)"

text \<open>
  A stored contest document: the fields the scoring reads, and those \<^verbatim>\<open>add\<close> writes besides.
  The collection of the module \<^verbatim>\<open>document\<close> is a map from the domain and the document
  identifier to the document; \<^verbatim>\<open>document.add\<close> stores a document under a new identifier,
  \<^verbatim>\<open>document.set\<close> writes the fields of \<^verbatim>\<open>$set\<close> into a stored one.
\<close>

record ContestDoc = tdoc +
  title :: string
  content :: string
  owner :: int
  attend :: nat
  rated :: bool

type_synonym Store = "string \<times> nat \<rightharpoonup> ContestDoc"

text \<open>\<^verbatim>\<open>$set: Partial<Tdoc>\<close>: each field is there or not.\<close>

record TdocSet =
  set_rule :: "string option"
  set_beginAt :: "date option"
  set_endAt :: "date option"
  set_lockAt :: "date option"
  set_unlocked :: "bool option"
  set_pids :: "int list option"
  set_title :: "string option"

text \<open>
  \<^verbatim>\<open>add\<close>: \<open>data\<close> holds the other fields of the new document, \<open>newId\<close> is the identifier that
  \<^verbatim>\<open>document.add\<close> gives it. The store is returned unchanged with an error; the third test
  is the call \<^verbatim>\<open>RULES[rule].check(data)\<close>.
\<close>

definition add ::
  "Store \<Rightarrow> nat \<Rightarrow> string \<Rightarrow> string \<Rightarrow> string \<Rightarrow> int \<Rightarrow> string \<Rightarrow> date \<Rightarrow> date \<Rightarrow> int list
     \<Rightarrow> bool \<Rightarrow> ContestDoc \<Rightarrow> (error + nat) \<times> Store" where
  "add store newId domainId title' content' owner' rule' beginAt' endAt' pids' rated' data =
     (if \<not> hasRule rule' then (Inl (ValidationError [''rule'']), store)
      else if beginAt' \<ge> endAt' then (Inl (ValidationError [''beginAt'', ''endAt'']), store)
      else if rule' \<notin> set RULES then (Inl TypeError, store)
      else (Inr newId,
            store((domainId, newId) \<mapsto>
              data\<lparr>content := content', owner := owner', title := title', rule := rule',
                   beginAt := beginAt', endAt := endAt', pids := pids', attend := 0,
                   rated := rated'\<rparr>)))"

text \<open>\<^verbatim>\<open>Object.assign(tdoc, $set)\<close>, and the update of \<^verbatim>\<open>document.set\<close>.\<close>

definition assign :: "ContestDoc \<Rightarrow> TdocSet \<Rightarrow> ContestDoc" where
  "assign doc s =
     doc\<lparr>rule := (case set_rule s of None \<Rightarrow> rule doc | Some v \<Rightarrow> v),
         beginAt := (case set_beginAt s of None \<Rightarrow> beginAt doc | Some v \<Rightarrow> v),
         endAt := (case set_endAt s of None \<Rightarrow> endAt doc | Some v \<Rightarrow> v),
         lockAt := (case set_lockAt s of None \<Rightarrow> lockAt doc | Some v \<Rightarrow> Some v),
         unlocked := (case set_unlocked s of None \<Rightarrow> unlocked doc | Some v \<Rightarrow> v),
         pids := (case set_pids s of None \<Rightarrow> pids doc | Some v \<Rightarrow> v),
         title := (case set_title s of None \<Rightarrow> title doc | Some v \<Rightarrow> v)\<rparr>"

text \<open>
  \<^verbatim>\<open>edit\<close>. \<^verbatim>\<open>$set.rule && !RULES[$set.rule]\<close>: the empty string is falsy. The call of
  \<^verbatim>\<open>RULES[$set.rule || tdoc.rule].check\<close> does nothing for a rule of \<^verbatim>\<open>RULES\<close>, and is a
  \<^verbatim>\<open>TypeError\<close> for any other name.
\<close>

definition edit :: "Store \<Rightarrow> string \<Rightarrow> nat \<Rightarrow> TdocSet \<Rightarrow> (error + ContestDoc) \<times> Store" where
  "edit store domainId tid s =
     (if (case set_rule s of None \<Rightarrow> False | Some r \<Rightarrow> r \<noteq> [] \<and> \<not> hasRule r)
      then (Inl (ValidationError [''rule'']), store)
      else case store (domainId, tid) of
             None \<Rightarrow> (Inl ContestNotFoundError, store)
           | Some tdoc \<Rightarrow>
               if (case set_rule s of None \<Rightarrow> rule tdoc | Some r \<Rightarrow> if r \<noteq> [] then r else rule tdoc)
                    \<notin> set RULES
               then (Inl TypeError, store)
               else (Inr (assign tdoc s), store((domainId, tid) \<mapsto> assign tdoc s)))"

definition ex_doc :: ContestDoc where
  "ex_doc = tdoc.extend ex_tdoc (ContestDoc.fields ''Round 1'' '''' 1 0 False)"

definition ex_set :: TdocSet where
  "ex_set = \<lparr>set_rule = None, set_beginAt = Some 20000000, set_endAt = None, set_lockAt = None,
     set_unlocked = None, set_pids = None, set_title = None\<rparr>"

subsection \<open>Example standings\<close>

definition ex_standing_a :: tsdoc where
  "ex_standing_a = acm_tsdoc 1
     (acm_stat ex_status False ex_tdoc 4000000 [acm_entry 40000 1 1, acm_entry 60000 2 1])"

definition ex_standing_b :: tsdoc where
  "ex_standing_b = acm_tsdoc 2 (acm_stat ex_status False ex_tdoc 4000000 [acm_entry 100000 1 1])"

section \<open>Lifecycle exclusivity\<close>

text \<open>
  C10. At one evaluation instant, for every contest configuration and every optional
  participant status, \<^verbatim>\<open>isOngoing\<close> and \<^verbatim>\<open>isDone\<close> are never both true: the first needs the
  instant before \<^verbatim>\<open>endAt\<close> and the duration budget not exhausted, the second needs the contest
  ended or the budget exhausted.
\<close>

theorem isOngoing_isDone_exclusive:
  "\<not> (isOngoing hour td ts now \<and> isDone hour td ts now)"
  by (simp add: isOngoing_def isDone_def)

section \<open>Freeze containment\<close>

lemma timeOrdered_getStatusJournal: "timeOrdered (getStatusJournal journal)"
  using sorted_sort_key [of "\<lambda>j. getTimestamp (rid j)" journal]
  by (simp add: timeOrdered_def getStatusJournal_def sorted_map)

lemma timeOrdered_split:
  "timeOrdered xs \<Longrightarrow>
   xs = truncateAt l xs @ filter (\<lambda>j. getTimestamp (rid j) > l) xs"
proof (induction xs)
  case Nil
  show ?case by (simp add: truncateAt_def)
next
  case (Cons x xs)
  then have ord: "timeOrdered xs" and le: "\<forall>y\<in>set xs. getTimestamp (rid x) \<le> getTimestamp (rid y)"
    by (simp_all add: timeOrdered_def)
  show ?case
  proof (cases "getTimestamp (rid x) \<le> l")
    case True
    with Cons.IH [OF ord] show ?thesis by (simp add: truncateAt_def)
  next
    case False
    with le have "\<forall>y\<in>set xs. \<not> getTimestamp (rid y) \<le> l" by fastforce
    then have "truncateAt l xs = []" "filter (\<lambda>j. getTimestamp (rid j) > l) xs = xs"
      by (simp_all add: truncateAt_def filter_empty_conv filter_id_conv not_le)
    with False show ?thesis by (simp add: truncateAt_def)
  qed
qed

lemma exposed_update:
  "exposed (AList.update k v al) p = (if p = k then shown v else exposed al p)"
  by (simp add: exposed_def update_conv')

lemma acm_step_hidden:
  assumes "afterLock l (rid j)"
  shows "exposed (st_display (acm_step S saa td l j st)) p = exposed (st_display st) p"
proof (cases "acm_skips S saa st j")
  case True
  then show ?thesis by (simp add: acm_step_def)
next
  case False
  show ?thesis
  proof (cases "map_of (st_display st) (pid j)")
    case None
    with False assms show ?thesis
      by (simp add: acm_step_def Let_def exposed_update) (simp add: exposed_def)
  next
    case (Some e)
    with False assms show ?thesis
      by (simp add: acm_step_def Let_def exposed_update) (simp add: exposed_def)
  qed
qed

lemma acm_loop_hidden:
  assumes "\<forall>j\<in>set post. afterLock l (rid j)"
  shows "exposed (st_display (acm_loop S saa td l post st)) p = exposed (st_display st) p"
  using assms
proof (induction post arbitrary: st)
  case Nil
  show ?case by (simp add: acm_loop_def)
next
  case (Cons j post)
  have "exposed (st_display (acm_loop S saa td l post (acm_step S saa td l j st))) p
        = exposed (st_display (acm_step S saa td l j st)) p"
    using Cons by simp
  also have "\<dots> = exposed (st_display st) p"
    using Cons.prems by (simp add: acm_step_hidden)
  finally show ?case by (simp add: acm_loop_def)
qed

lemma acm_loop_append:
  "acm_loop S saa td l (xs @ ys) st = acm_loop S saa td l ys (acm_loop S saa td l xs st)"
  by (simp add: acm_loop_def)

lemma oi_step_hidden:
  assumes "afterLock l (rid j)"
  shows "exposed (oi_display (oi_step saa l j st)) p = exposed (oi_display st) p"
proof (cases "oi_takes saa st j")
  case False
  then show ?thesis by (simp add: oi_step_def)
next
  case True
  show ?thesis
  proof (cases "map_of (oi_display st) (pid j)")
    case None
    with True assms show ?thesis
      by (simp add: oi_step_def Let_def orEmpty_def setNpending_def update_conv' exposed_update)
         (simp add: exposed_def)
  next
    case (Some e)
    with True assms show ?thesis
      by (simp add: oi_step_def Let_def orEmpty_def setNpending_def update_conv' exposed_update)
         (simp add: exposed_def)
  qed
qed


lemma oi_loop_hidden:
  assumes "\<forall>j\<in>set post. afterLock l (rid j)"
  shows "exposed (oi_display (oi_loop saa l post st)) p = exposed (oi_display st) p"
  using assms
proof (induction post arbitrary: st)
  case Nil
  show ?case by (simp add: oi_loop_def)
next
  case (Cons j post)
  have "exposed (oi_display (oi_loop saa l post (oi_step saa l j st))) p
        = exposed (oi_display (oi_step saa l j st)) p"
    using Cons by simp
  also have "\<dots> = exposed (oi_display st) p"
    using Cons.prems by (simp add: oi_step_hidden)
  finally show ?case by (simp add: oi_loop_def)
qed

lemma shownList_update_same:
  "map_of al k = Some e \<Longrightarrow> shown e' = shown e \<Longrightarrow> shownList (AList.update k e' al) = shownList al"
  by (induction al) (auto simp: shownList_def)

lemma shownList_update_new:
  "map_of al k = None \<Longrightarrow> shown e' = None \<Longrightarrow> shownList (AList.update k e' al) = shownList al"
  by (induction al) (auto simp: shownList_def)

lemma acm_step_shownList:
  assumes "afterLock l (rid j)"
  shows "shownList (st_display (acm_step S saa td l j st)) = shownList (st_display st)"
proof (cases "acm_skips S saa st j")
  case True
  then show ?thesis by (simp add: acm_step_def)
next
  case False
  show ?thesis
  proof (cases "map_of (st_display st) (pid j)")
    case None
    with False assms show ?thesis
      by (simp add: acm_step_def Let_def shownList_update_new)
  next
    case (Some e)
    with False assms show ?thesis
      by (simp add: acm_step_def Let_def shownList_update_same)
  qed
qed

lemma oi_step_shownList:
  assumes "afterLock l (rid j)"
  shows "shownList (oi_display (oi_step saa l j st)) = shownList (oi_display st)"
proof (cases "oi_takes saa st j")
  case False
  then show ?thesis by (simp add: oi_step_def)
next
  case True
  show ?thesis
  proof (cases "map_of (oi_display st) (pid j)")
    case None
    with True assms show ?thesis
      by (simp add: oi_step_def Let_def orEmpty_def setNpending_def update_conv'
            shownList_update_new shownList_update_same)
  next
    case (Some e)
    with True assms show ?thesis
      by (simp add: oi_step_def Let_def orEmpty_def setNpending_def shownList_update_same)
  qed
qed

lemma acm_loop_shownList:
  assumes "\<forall>j\<in>set post. afterLock l (rid j)"
  shows "shownList (st_display (acm_loop S saa td l post st)) = shownList (st_display st)"
  using assms
proof (induction post arbitrary: st)
  case Nil
  show ?case by (simp add: acm_loop_def)
next
  case (Cons j post)
  have "shownList (st_display (acm_loop S saa td l post (acm_step S saa td l j st)))
        = shownList (st_display (acm_step S saa td l j st))"
    using Cons by simp
  also have "\<dots> = shownList (st_display st)"
    using Cons.prems by (simp add: acm_step_shownList)
  finally show ?case by (simp add: acm_loop_def)
qed

lemma oi_loop_shownList:
  assumes "\<forall>j\<in>set post. afterLock l (rid j)"
  shows "shownList (oi_display (oi_loop saa l post st)) = shownList (oi_display st)"
  using assms
proof (induction post arbitrary: st)
  case Nil
  show ?case by (simp add: oi_loop_def)
next
  case (Cons j post)
  have "shownList (oi_display (oi_loop saa l post (oi_step saa l j st)))
        = shownList (oi_display (oi_step saa l j st))"
    using Cons by simp
  also have "\<dots> = shownList (oi_display st)"
    using Cons.prems by (simp add: oi_step_shownList)
  finally show ?case by (simp add: oi_loop_def)
qed

lemma acceptedShown_shownList:
  "acceptedShown S display = filter (\<lambda>e. status e = STATUS_ACCEPTED S) (shownList display)"
  by (simp add: acceptedShown_def shownList_def)

lemma shownScore_shownList:
  "sum_list (map (shownScore \<circ> snd) display) = sum_list (map score (shownList display))"
  by (induction display) (auto simp: shownScore_def shownList_def split: option.splits)


lemma after_truncate:
  "\<forall>j\<in>set (filter (\<lambda>j. getTimestamp (rid j) > l) xs). afterLock (Some l) (rid j)"
  by (simp add: afterLock_def)

lemma inPids_truncateAt: "inPids td (truncateAt l xs) = truncateAt l (inPids td xs)"
  by (induction xs) (simp_all add: inPids_def truncateAt_def)

lemma timeOrdered_inPids: "timeOrdered xs \<Longrightarrow> timeOrdered (inPids td xs)"
  by (simp add: timeOrdered_def inPids_def sorted_wrt_filter)

lemma acm_loop_truncate:
  assumes "timeOrdered xs"
  shows "exposed (st_display (acm_loop S saa td (Some l) xs st)) p
           = exposed (st_display (acm_loop S saa td (Some l) (truncateAt l xs) st)) p"
    and "shownList (st_display (acm_loop S saa td (Some l) xs st))
           = shownList (st_display (acm_loop S saa td (Some l) (truncateAt l xs) st))"
proof -
  let ?post = "filter (\<lambda>j. getTimestamp (rid j) > l) xs"
  have split: "acm_loop S saa td (Some l) xs st
      = acm_loop S saa td (Some l) ?post (acm_loop S saa td (Some l) (truncateAt l xs) st)"
    using timeOrdered_split [OF assms, of l] acm_loop_append [of S saa td "Some l" "truncateAt l xs" ?post st]
    by simp
  show "exposed (st_display (acm_loop S saa td (Some l) xs st)) p
           = exposed (st_display (acm_loop S saa td (Some l) (truncateAt l xs) st)) p"
    unfolding split by (rule acm_loop_hidden [OF after_truncate])
  show "shownList (st_display (acm_loop S saa td (Some l) xs st))
           = shownList (st_display (acm_loop S saa td (Some l) (truncateAt l xs) st))"
    unfolding split by (rule acm_loop_shownList [OF after_truncate])
qed

lemma oi_loop_append:
  "oi_loop saa l (xs @ ys) st = oi_loop saa l ys (oi_loop saa l xs st)"
  by (simp add: oi_loop_def)

lemma oi_loop_truncate:
  assumes "timeOrdered xs"
  shows "exposed (oi_display (oi_loop saa (Some l) xs st)) p
           = exposed (oi_display (oi_loop saa (Some l) (truncateAt l xs) st)) p"
    and "shownList (oi_display (oi_loop saa (Some l) xs st))
           = shownList (oi_display (oi_loop saa (Some l) (truncateAt l xs) st))"
proof -
  let ?post = "filter (\<lambda>j. getTimestamp (rid j) > l) xs"
  have split: "oi_loop saa (Some l) xs st
      = oi_loop saa (Some l) ?post (oi_loop saa (Some l) (truncateAt l xs) st)"
    using timeOrdered_split [OF assms, of l] oi_loop_append [of saa "Some l" "truncateAt l xs" ?post st]
    by simp
  show "exposed (oi_display (oi_loop saa (Some l) xs st)) p
           = exposed (oi_display (oi_loop saa (Some l) (truncateAt l xs) st)) p"
    unfolding split by (rule oi_loop_hidden [OF after_truncate])
  show "shownList (oi_display (oi_loop saa (Some l) xs st))
           = shownList (oi_display (oi_loop saa (Some l) (truncateAt l xs) st))"
    unfolding split by (rule oi_loop_shownList [OF after_truncate])
qed

text \<open>
  C1. While the contest is locked (\<^verbatim>\<open>lockAt\<close> set, in the past, not \<^verbatim>\<open>unlocked\<close>), for a
  journal in time order, what the \<^verbatim>\<open>display\<close> returned by \<^verbatim>\<open>acm.stat\<close> and by \<^verbatim>\<open>oi.stat\<close>
  (the rules \<^verbatim>\<open>oi\<close> and \<^verbatim>\<open>ioi\<close>) exposes at every problem is what it exposes on the journal
  truncated at \<^verbatim>\<open>lockAt\<close>: no score, verdict or instant of an entry submitted strictly after
  \<^verbatim>\<open>lockAt\<close> is in it, and only the pending counters differ. The aggregates computed from
  \<^verbatim>\<open>display\<close> (\<^verbatim>\<open>accept\<close>, \<^verbatim>\<open>time\<close>, \<^verbatim>\<open>score\<close>) are those of the truncated journal too.
  The other rules (\<^verbatim>\<open>strictioi\<close>, \<^verbatim>\<open>ledo\<close>, \<^verbatim>\<open>homework\<close>) return no \<^verbatim>\<open>display\<close>.
\<close>

theorem freeze_containment:
  assumes locked: "isLocked td now" and l: "lockAt td = Some l"
    and aj: "timeOrdered aj" and oj: "timeOrdered oj"
  shows "exposed (stat_display (acm_stat S saa td now aj)) p
           = exposed (stat_display (acm_stat S saa td now (truncateAt l aj))) p
       \<and> stat_accept (acm_stat S saa td now aj) = stat_accept (acm_stat S saa td now (truncateAt l aj))
       \<and> stat_time (acm_stat S saa td now aj) = stat_time (acm_stat S saa td now (truncateAt l aj))
       \<and> exposed (oi_stat_display (oi_stat saa' td now oj)) p
           = exposed (oi_stat_display (oi_stat saa' td now (truncateAt l oj))) p
       \<and> oi_stat_score (oi_stat saa' td now oj) = oi_stat_score (oi_stat saa' td now (truncateAt l oj))"
proof -
  have eff: "effectiveLockAt td now = Some l"
    using locked l by (simp add: effectiveLockAt_def)
  have oj': "timeOrdered (inPids td oj)"
    using oj by (rule timeOrdered_inPids)
  show ?thesis
    using acm_loop_truncate [OF aj, of S saa td l acm_init]
      oi_loop_truncate [OF oj', of saa' l oi_init]
    by (simp add: acm_stat_def oi_stat_def eff Let_def acceptedShown_shownList
        shownScore_shownList inPids_truncateAt)
qed

theorem freeze_containment_witness:
  "isLocked ex_tdoc 6000000 \<and> lockAt ex_tdoc = Some 5000000
   \<and> timeOrdered [acm_entry 1000000 1 2, acm_entry 5500000 1 1, acm_entry 5600000 2 1]
   \<and> timeOrdered [oi_entry 1000000 1 2 30, oi_entry 5500000 1 1 100, oi_entry 5600000 2 1 100]
   \<and> exposed (stat_display (acm_stat ex_status False ex_tdoc 6000000
         [acm_entry 1000000 1 2, acm_entry 5500000 1 1, acm_entry 5600000 2 1])) 1
      = exposed (stat_display (acm_stat ex_status False ex_tdoc 6000000 [acm_entry 1000000 1 2])) 1
   \<and> exposed (oi_stat_display (oi_stat False ex_tdoc 6000000
         [oi_entry 1000000 1 2 30, oi_entry 5500000 1 1 100, oi_entry 5600000 2 1 100])) 1
      = exposed (oi_stat_display (oi_stat False ex_tdoc 6000000 [oi_entry 1000000 1 2 30])) 1"
proof -
  have h1: "isLocked ex_tdoc 6000000" by (simp add: isLocked_def ex_tdoc_def)
  have h2: "lockAt ex_tdoc = Some 5000000" by (simp add: ex_tdoc_def)
  have h3: "timeOrdered [acm_entry 1000000 1 2, acm_entry 5500000 1 1, acm_entry 5600000 2 1]"
    by (simp add: timeOrdered_def acm_entry_def)
  have h4: "timeOrdered [oi_entry 1000000 1 2 30, oi_entry 5500000 1 1 100, oi_entry 5600000 2 1 100]"
    by (simp add: timeOrdered_def oi_entry_def)
  have t1: "truncateAt 5000000 [acm_entry 1000000 1 2, acm_entry 5500000 1 1, acm_entry 5600000 2 1]
      = [acm_entry 1000000 1 2]"
    by (simp add: truncateAt_def acm_entry_def)
  have t2: "truncateAt 5000000 [oi_entry 1000000 1 2 30, oi_entry 5500000 1 1 100, oi_entry 5600000 2 1 100]
      = [oi_entry 1000000 1 2 30]"
    by (simp add: truncateAt_def oi_entry_def)
  show ?thesis
    using freeze_containment [OF h1 h2 h3 h4, of ex_status False 1 False] h1 h2 h3 h4
    unfolding t1 t2 by simp
qed

section \<open>ACM penalty accounting\<close>

lemma acm_loop_snoc:
  "acm_loop S saa td l (pre @ [j]) st = acm_step S saa td l j (acm_loop S saa td l pre st)"
  by (simp add: acm_loop_def)

lemma acm_step_skip: "acm_skips S saa st j \<Longrightarrow> acm_step S saa td l j st = st"
  by (simp add: acm_step_def)

lemma acm_step_naccept:
  "\<not> acm_skips S saa st j \<Longrightarrow>
   st_naccept (acm_step S saa td l j st) p =
     st_naccept st p + (if p = pid j \<and> countsAsAttempt S (status j) then 1 else 0)"
  by (simp add: acm_step_def Let_def)

lemma acm_step_display_other:
  "p \<noteq> pid j \<Longrightarrow>
   displayAccepted S (st_display (acm_step S saa td l j st)) p = displayAccepted S (st_display st) p"
  by (simp add: acm_step_def Let_def displayAccepted_def update_conv')

lemma acm_step_detail:
  "\<not> acm_skips S saa st j \<Longrightarrow>
   map_of (st_detail (acm_step S saa td l j st)) (pid j) = Some (acm_detail_of td (st_naccept st) j)"
  by (simp add: acm_step_def Let_def update_conv')

lemma priorAttempts_snoc:
  "priorAttempts S (pre @ [j]) p =
     priorAttempts S pre p + (if p = pid j \<and> countsAsAttempt S (status j) then 1 else 0)"
  by (simp add: priorAttempts_def)

lemma acm_naccept_counts:
  "(\<not> saa \<and> displayAccepted S (st_display (acm_loop S saa td l pre acm_init)) p)
   \<or> st_naccept (acm_loop S saa td l pre acm_init) p = priorAttempts S pre p"
proof (induction pre arbitrary: p rule: rev_induct)
  case Nil
  show ?case by (simp add: acm_loop_def acm_init_def priorAttempts_def)
next
  case (snoc j pre)
  let ?st = "acm_loop S saa td l pre acm_init"
  show ?case
  proof (cases "acm_skips S saa ?st j")
    case True
    then have same: "acm_loop S saa td l (pre @ [j]) acm_init = ?st"
      by (simp add: acm_loop_snoc acm_step_skip)
    show ?thesis
    proof (cases "p = pid j")
      case True
      with \<open>acm_skips S saa ?st j\<close> show ?thesis
        unfolding same acm_skips_def by blast
    next
      case False
      with snoc.IH [of p] show ?thesis
        unfolding same by (simp add: priorAttempts_snoc)
    qed
  next
    case False
    show ?thesis
    proof (cases "p = pid j")
      case True
      from False snoc.IH [of "pid j"]
      have "st_naccept ?st (pid j) = priorAttempts S pre (pid j)"
        by (auto simp: acm_skips_def)
      with False True show ?thesis
        by (simp add: acm_loop_snoc acm_step_naccept priorAttempts_snoc)
    next
      case neq: False
      with False snoc.IH [of p] show ?thesis
        by (simp add: acm_loop_snoc acm_step_naccept priorAttempts_snoc acm_step_display_other)
    qed
  qed
qed

text \<open>
  C5. In \<^verbatim>\<open>acm.stat\<close>, an entry \<open>j\<close> that the loop does not skip (the rule submits after
  accept, or \<^verbatim>\<open>display\<close> does not show its problem accepted after the entries \<open>pre\<close> before
  it) is recorded in \<^verbatim>\<open>detail\<close> with \<^verbatim>\<open>real\<close> the whole seconds from \<^verbatim>\<open>beginAt\<close> to its
  submission, \<^verbatim>\<open>naccept\<close> the number of earlier entries on its problem whose status is neither
  accepted, compile error nor format error, \<^verbatim>\<open>penalty\<close> 20 minutes times that number, and
  \<^verbatim>\<open>time\<close> their sum. A problem solved on the third such attempt at \<open>t\<close> seconds records
  \<open>t + 2 * 1200\<close>.
\<close>

theorem acm_penalty_time:
  assumes "saa \<or> \<not> (\<exists>d e. map_of (stat_display (acm_stat S saa td now pre)) (pid j) = Some d
                          \<and> shown d = Some e \<and> status e = STATUS_ACCEPTED S)"
  shows "map_option (\<lambda>d. (time d, real_sec d, penalty d, naccept d))
           (map_of (stat_detail (acm_stat S saa td now (pre @ [j]))) (pid j))
         = (let n = length (filter (\<lambda>i. pid i = pid j
                                      \<and> status i \<noteq> STATUS_ACCEPTED S
                                      \<and> status i \<noteq> STATUS_COMPILE_ERROR S
                                      \<and> status i \<noteq> STATUS_FORMAT_ERROR S) pre);
                t = (getTimestamp (rid j) - beginAt td) div 1000
            in Some (t + 20 * 60 * int n, t, 20 * 60 * int n, n))"
proof -
  let ?l = "effectiveLockAt td now"
  let ?st = "acm_loop S saa td ?l pre acm_init"
  from assms have ns: "\<not> acm_skips S saa ?st j"
    by (auto simp: acm_skips_def acm_stat_def Let_def displayAccepted_def split: option.splits)
  with acm_naccept_counts [of saa S td ?l pre "pid j"]
  have n: "st_naccept ?st (pid j) = priorAttempts S pre (pid j)"
    by (auto simp: acm_skips_def)
  have c: "priorAttempts S pre (pid j)
           = length (filter (\<lambda>i. pid i = pid j
                                  \<and> status i \<noteq> STATUS_ACCEPTED S
                                  \<and> status i \<noteq> STATUS_COMPILE_ERROR S
                                  \<and> status i \<noteq> STATUS_FORMAT_ERROR S) pre)"
    by (simp add: priorAttempts_def countsAsAttempt_def)
  have "map_of (stat_detail (acm_stat S saa td now (pre @ [j]))) (pid j)
        = Some (acm_detail_of td (st_naccept ?st) j)"
    using ns by (simp add: acm_stat_def Let_def acm_loop_snoc acm_step_detail)
  then show ?thesis
    by (simp add: acm_detail_of_def Let_def n c elapsedSeconds_def AcmJournal.extend_def
        AcmDetail.fields_def)
qed

lemmas acm_eval = acm_stat_def acm_loop_def acm_step_def acm_init_def acm_skips_def
  displayAccepted_def effectiveLockAt_def isLocked_def afterLock_def acm_detail_of_def
  elapsedSeconds_def acceptedShown_def countsAsAttempt_def AcmJournal.extend_def
  AcmDetail.fields_def Let_def inPids_def

lemmas ex_defs = ex_status_def ex_tdoc_def acm_entry_def oi_entry_def

lemma ex_acm_pre_display:
  "map_of (stat_display (acm_stat ex_status False ex_tdoc_late 4000000 ex_acm_pre)) 1
   = Some \<lparr>shown = Some (AcmJournal.extend
              \<lparr>score = 0, status = 2, rid = \<lparr>getTimestamp = 2100000, oid = 0\<rparr>, pid = 1,
                 time = 3200\<rparr> (AcmDetail.fields 1 1200 2000)),
           npending = None\<rparr>"
  by (simp add: acm_eval ex_defs ex_tdoc_late_def ex_acm_pre_def)

theorem acm_penalty_time_witness:
  "\<not> (\<exists>d e. map_of (stat_display (acm_stat ex_status False ex_tdoc_late 4000000 ex_acm_pre))
                (pid (acm_entry 3100500 1 1)) = Some d
             \<and> shown d = Some e \<and> status e = STATUS_ACCEPTED ex_status)
   \<and> beginAt ex_tdoc_late = 100000
   \<and> map status ex_acm_pre = [2, STATUS_COMPILE_ERROR ex_status, STATUS_FORMAT_ERROR ex_status, 2, 2]
   \<and> map pid ex_acm_pre = [1, 1, 1, 2, 1]
   \<and> map_option (\<lambda>d. (time d, real_sec d, penalty d, naccept d))
         (map_of (stat_detail (acm_stat ex_status False ex_tdoc_late 4000000
            (ex_acm_pre @ [acm_entry 3100500 1 1]))) 1)
       = Some (3000 + 2 * 1200, 3000, 2 * 1200, 2)"
proof -
  have p: "pid (acm_entry 3100500 1 1) = 1" by (simp add: acm_entry_def)
  have h: "False \<or> \<not> (\<exists>d e. map_of (stat_display (acm_stat ex_status False ex_tdoc_late 4000000
        ex_acm_pre)) (pid (acm_entry 3100500 1 1)) = Some d
             \<and> shown d = Some e \<and> status e = STATUS_ACCEPTED ex_status)"
    unfolding p ex_acm_pre_display
    by (simp add: ex_status_def AcmJournal.extend_def AcmDetail.fields_def)
  have n: "length (filter (\<lambda>i. pid i = 1
                              \<and> status i \<noteq> STATUS_ACCEPTED ex_status
                              \<and> status i \<noteq> STATUS_COMPILE_ERROR ex_status
                              \<and> status i \<noteq> STATUS_FORMAT_ERROR ex_status) ex_acm_pre) = 2"
    by (simp add: ex_acm_pre_def ex_defs)
  have e: "(getTimestamp (rid (acm_entry 3100500 1 1)) - beginAt ex_tdoc_late) div 1000 = 3000"
    by (simp add: ex_tdoc_late_def ex_defs)
  have b: "beginAt ex_tdoc_late = 100000" by (simp add: ex_tdoc_late_def)
  have s: "map status ex_acm_pre = [2, STATUS_COMPILE_ERROR ex_status, STATUS_FORMAT_ERROR ex_status, 2, 2]"
    "map pid ex_acm_pre = [1, 1, 1, 2, 1]"
    by (simp_all add: ex_acm_pre_def ex_defs)
  show ?thesis
    using acm_penalty_time [OF h] h b s unfolding p n e by (simp add: Let_def)
qed

section \<open>Entries of a problem outside \<^verbatim>\<open>pids\<close>\<close>

text \<open>
  The rules that filter the journal (\<^verbatim>\<open>oi\<close> and \<^verbatim>\<open>ioi\<close>, \<^verbatim>\<open>strictioi\<close>, \<^verbatim>\<open>ledo\<close>) or test
  \<^verbatim>\<open>tdoc.pids.includes(j.pid)\<close> (\<^verbatim>\<open>homework\<close>) return the aggregate of the journal restricted
  to \<^verbatim>\<open>pids\<close>.
\<close>

lemma inPids_idem: "inPids td (inPids td journal) = inPids td journal"
  by (simp add: inPids_def)

lemma hw_effective_fold:
  "fold (\<lambda>j eff. if pid j \<in> set (pids td) then AList.update (pid j) j eff else eff)
        (inPids td journal) eff
   = fold (\<lambda>j eff. if pid j \<in> set (pids td) then AList.update (pid j) j eff else eff) journal eff"
  by (induction journal arbitrary: eff) (simp_all add: inPids_def)

lemma other_rules_ignore_foreign_pids:
  "oi_stat saa td now (inPids td oj) = oi_stat saa td now oj
   \<and> fst (strictioi_stat td (inPids td sj)) = fst (strictioi_stat td sj)
   \<and> ledo_stat S pow td (inPids td oj) = ledo_stat S pow td oj
   \<and> homework_stat td (inPids td hj) = homework_stat td hj"
  by (simp add: oi_stat_def strictioi_stat_def ledo_stat_def homework_stat_def hw_effective_def
      inPids_idem hw_effective_fold Let_def)

text \<open>
  C2. \<^verbatim>\<open>acm.stat\<close> iterates the whole journal, with no test of \<^verbatim>\<open>tdoc.pids\<close>: with
  \<^verbatim>\<open>pids = [1, 2]\<close>, an accepted entry on problem 3 is counted in \<^verbatim>\<open>accept\<close> and recorded in
  \<^verbatim>\<open>detail\<close>, while the journal restricted to \<^verbatim>\<open>pids\<close> gives the empty aggregate.
\<close>

theorem acm_stat_foreign_pid:
  "pids ex_tdoc = [1, 2]
   \<and> stat_accept (acm_stat ex_status False ex_tdoc 4000000 [acm_entry 1000000 3 1]) = 1
   \<and> map_of (stat_detail (acm_stat ex_status False ex_tdoc 4000000 [acm_entry 1000000 3 1])) 3 \<noteq> None
   \<and> stat_accept (acm_stat ex_status False ex_tdoc 4000000
         (inPids ex_tdoc [acm_entry 1000000 3 1])) = 0
   \<and> stat_detail (acm_stat ex_status False ex_tdoc 4000000
         (inPids ex_tdoc [acm_entry 1000000 3 1])) = []"
  by (simp add: acm_eval ex_defs)

section \<open>Running \<^verbatim>\<open>stat\<close> again\<close>

lemmas strict_eval = strictioi_rerun_def strictioi_stat_def strictioi_step_def mergeSubtasks_def
  shareSubtasks_def Math_max_def inPids_def getStatusJournal_def Let_def

text \<open>
  C3. \<^verbatim>\<open>strictioi.stat\<close> writes the merged subtasks, their score and status into the journal
  entries, and the journal is stored as the call leaves it. On a journal with one submission
  to problem 1 (subtask 0: 10 points) and a later one to problem 2 (subtask 0: 20 points),
  the first run gives the score 30, and the run on the journal it leaves gives 40.
\<close>

theorem strictioi_stat_rerun_differs:
  "si_stat_score (fst (strictioi_stat ex_tdoc (getStatusJournal ex_strict_journal))) = 30
   \<and> si_stat_score (strictioi_rerun ex_tdoc ex_strict_journal) = 40"
  by (simp add: strict_eval ex_strict_journal_def strict_entry_def ex_subtask_def ex_tdoc_def)

section \<open>Ledo retry decay\<close>













text \<open>
  The doubles \<^verbatim>\<open>0.7\<close> and \<^verbatim>\<open>0.95\<close>. With the power rounded to nearest, \<^verbatim>\<open>0.95 ** 9\<close> is below
  the double \<^verbatim>\<open>0.7\<close>.
\<close>

lemma toDouble_literals:
  "toDouble (7 / 10) = 3152519739159347 / 4503599627370496"
  "toDouble (19 / 20) = 4278419646001971 / 4503599627370496"
  by code_simp+





text \<open>The first attempt has the coefficient 1: the penalized score is the score.\<close>

lemma ledo_first_attempt:
  assumes "pow (toDouble (19 / 20)) 0 = 1"
  shows "ledo_penaltyScore pow 0 45 = 45" and "ledo_penaltyScore pow 0 100 = 100"
proof -
  have m: "max (toDouble (7 / 10)) 1 = 1"
    by (simp add: toDouble_literals)
  have "round (toDouble (of_int 45)) = 45" "round (toDouble (of_int 100)) = 100"
    by code_simp+
  then show "ledo_penaltyScore pow 0 45 = 45" and "ledo_penaltyScore pow 0 100 = 100"
    by (simp_all add: ledo_penaltyScore_def assms m)
qed

text \<open>The fourth attempt, with the power rounded to nearest: the score 100 becomes 86.\<close>

lemma ledo_fourth_attempt: "ledo_penaltyScore pow_nearest 3 100 = 86"
  by code_simp








section \<open>The empty journal\<close>

text \<open>
  C8. On the empty journal every rule's \<^verbatim>\<open>stat\<close> returns its zero aggregate: the counters and
  sums are 0 and \<^verbatim>\<open>detail\<close> and \<^verbatim>\<open>display\<close> are empty; the total time of the homework rule
  is the sum over no entry, 0.
\<close>

theorem stat_empty_journal:
  "acm_stat S saa td now [] = \<lparr>stat_accept = 0, stat_time = 0, stat_detail = [], stat_display = []\<rparr>
   \<and> oi_stat saa td now [] = \<lparr>oi_stat_score = 0, oi_stat_detail = [], oi_stat_display = []\<rparr>
   \<and> fst (strictioi_stat td []) = \<lparr>si_stat_score = 0, si_stat_detail = []\<rparr>
   \<and> ledo_stat S pow td [] =
       \<lparr>ledo_stat_score = 0, ledo_stat_originalScore = 0, ledo_stat_detail = []\<rparr>
   \<and> homework_stat td [] =
       \<lparr>hw_stat_score = 0, hw_stat_penaltyScore = 0, hw_stat_time = 0, hw_stat_detail = []\<rparr>"
proof -
  have a: "acm_stat S saa td now [] = \<lparr>stat_accept = 0, stat_time = 0, stat_detail = [], stat_display = []\<rparr>"
    by (simp add: acm_stat_def acm_loop_def acm_init_def acceptedShown_def)
  have b: "oi_stat saa td now [] = \<lparr>oi_stat_score = 0, oi_stat_detail = [], oi_stat_display = []\<rparr>"
    by (simp add: oi_stat_def oi_loop_def oi_init_def inPids_def)
  have c: "fst (strictioi_stat td []) = \<lparr>si_stat_score = 0, si_stat_detail = []\<rparr>"
    by (simp add: strictioi_stat_def inPids_def)
  have d: "ledo_stat S pow td [] =
       \<lparr>ledo_stat_score = 0, ledo_stat_originalScore = 0, ledo_stat_detail = []\<rparr>"
    by (simp add: ledo_stat_def ledo_loop_def ledo_init_def inPids_def)
  have e: "homework_stat td [] =
       \<lparr>hw_stat_score = 0, hw_stat_penaltyScore = 0, hw_stat_time = 0, hw_stat_detail = []\<rparr>"
    by (simp add: homework_stat_def hw_effective_def Math_sum_def)
  from a b c d e show ?thesis by simp
qed

section \<open>The tie predicate of the ACM scoreboard\<close>

lemma ex_standing_a_eq:
  "ex_standing_a = \<lparr>uid = 1, startAt = None, ts_score = None, ts_accept = Some 2, ts_time = Some 100\<rparr>"
  by (simp add: ex_standing_a_def acm_tsdoc_def acm_eval ex_defs)

lemma ex_standing_b_eq:
  "ex_standing_b = \<lparr>uid = 2, startAt = None, ts_score = None, ts_accept = Some 1, ts_time = Some 100\<rparr>"
  by (simp add: ex_standing_b_def acm_tsdoc_def acm_eval ex_defs)

text \<open>
  C4. \<^verbatim>\<open>acm.scoreboard\<close> ranks with the predicate on \<^verbatim>\<open>score\<close> and \<^verbatim>\<open>time\<close>, and the status
  documents of the ACM rule have no \<^verbatim>\<open>score\<close>: two standings of equal \<^verbatim>\<open>time\<close> tie there
  whatever their \<^verbatim>\<open>accept\<close>. One participant with two problems solved in 100 seconds in
  all and one with one problem solved in 100 seconds get the ranks 1 and 1 in the
  scoreboard, and 1 and 2 from \<^verbatim>\<open>acm.ranked\<close>.
\<close>

theorem acm_scoreboard_ties_differ:
  "ts_accept ex_standing_a = Some 2 \<and> ts_accept ex_standing_b = Some 1
   \<and> ts_time ex_standing_a = Some 100 \<and> ts_time ex_standing_b = Some 100
   \<and> acm_scoreboard_ranks [ex_standing_a, ex_standing_b] = [(1, ex_standing_a), (1, ex_standing_b)]
   \<and> acm_ranked [ex_standing_a, ex_standing_b] = [(1, ex_standing_a), (2, ex_standing_b)]
   \<and> acm_scoreboard (\<lparr>this_fields = Map.empty, this_scoreboardHeader = (\<lambda>e. 0),
         this_scoreboardRow = (\<lambda>e rank tsdoc. rank)\<rparr>) () [ex_standing_a, ex_standing_b] = [0, 1, 1]"
  by (simp add: ex_standing_a_eq ex_standing_b_eq acm_scoreboard_ranks_def acm_ranked_def
      acm_scoreboard_equ_def acm_ranked_equ_def acm_scoreboard_def scoreboardWith_def)

section \<open>Composition of rules\<close>

text \<open>
  The rule \<^verbatim>\<open>ioi\<close> gives no \<^verbatim>\<open>stat\<close>: it gets that of \<^verbatim>\<open>oi\<close>, bound to itself, which reads
  the \<^verbatim>\<open>submitAfterAccept\<close> of \<^verbatim>\<open>ioi\<close>; the fields \<^verbatim>\<open>ioi\<close> does not give are those of \<^verbatim>\<open>oi\<close>.
\<close>

lemma ioi_stat_bound:
  "\<exists>oi ioi.
     buildContestRule (oi_def header row) None = Inr oi
     \<and> buildContestRule ioi_def (Some oi) = Inr ioi
     \<and> stat oi td (now, journal) = oi_stat True td now journal
     \<and> stat ioi td (now, journal) = oi_stat False td now journal
     \<and> rule_fields ioi ''TEXT'' = Some (Str ''IOI'')
     \<and> rule_fields ioi ''statusSort'' = Some (Sort [(''score'', -1)])"
  by (simp add: buildContestRule_def orBase_def Let_def oi_def_def ioi_def_def oi_stat_this_def
      truthy_def map_add_def)


text \<open>
  C7. \<^verbatim>\<open>buildContestRule\<close> gives the derived rule every field of the base rule, replaced
  by the field of the derived definition where it has one, and binds the four functions
  to the derived rule: for a base rule whose \<^verbatim>\<open>scoreboard\<close> is that of the source (rank, header,
  one row for each standing) and a derived definition with its own \<^verbatim>\<open>scoreboardRow\<close> and no
  \<^verbatim>\<open>scoreboard\<close>, the inherited \<^verbatim>\<open>scoreboard\<close> of the derived rule builds its rows with the
  derived \<^verbatim>\<open>scoreboardRow\<close> (the base rule's own \<^verbatim>\<open>scoreboard\<close> still uses the base one), and
  \<^verbatim>\<open>stat\<close> is the derived one when there is one, the inherited one otherwise, both reading
  the fields of the derived rule.
\<close>

theorem buildContestRule_dispatch:
  "\<exists>base rule.
     buildContestRule \<lparr>d_fields = fs0, d_scoreboard = Some (scoreboardWith equ),
        d_scoreboardRow = Some row0, d_scoreboardHeader = Some header0, d_stat = Some st0\<rparr> None
       = Inr base
     \<and> buildContestRule \<lparr>d_fields = fs1, d_scoreboard = None,
        d_scoreboardRow = Some row1, d_scoreboardHeader = None, d_stat = st1\<rparr> (Some base)
       = Inr rule
     \<and> (\<forall>k. rule_fields rule k = (case fs1 k of Some v \<Rightarrow> Some v | None \<Rightarrow> fs0 k))
     \<and> scoreboardRow rule = row1 (rule_fields rule)
     \<and> scoreboardHeader rule = header0 (rule_fields rule)
     \<and> stat rule = (case st1 of Some st \<Rightarrow> st | None \<Rightarrow> st0) (rule_fields rule)
     \<and> (\<forall>env cursor. scoreboard rule env cursor =
           header0 (rule_fields rule) env
             # map (\<lambda>(rank, tsdoc). row1 (rule_fields rule) env rank tsdoc) (ranked equ cursor))
     \<and> (\<forall>env cursor. scoreboard base env cursor =
           header0 fs0 env # map (\<lambda>(rank, tsdoc). row0 fs0 env rank tsdoc) (ranked equ cursor))"
  by (cases st1)
    (simp_all add: buildContestRule_def orBase_def Let_def scoreboardWith_def map_add_def
      split: option.split)

theorem buildContestRule_dispatch_witness:
  "\<exists>base rule.
     buildContestRule \<lparr>d_fields = [''TEXT'' \<mapsto> Str ''IOI''],
        d_scoreboard = Some (scoreboardWith oi_equ),
        d_scoreboardRow = Some (\<lambda>this (env :: unit) rank tsdoc. ''row of ioi''),
        d_scoreboardHeader = Some (\<lambda>this env. ''header of ioi''),
        d_stat = Some (\<lambda>this td (journal :: unit). 0 :: nat)\<rparr> None
       = Inr base
     \<and> buildContestRule \<lparr>d_fields = [''TEXT'' \<mapsto> Str ''IOI(Strict)''], d_scoreboard = None,
        d_scoreboardRow = Some (\<lambda>this env rank tsdoc. ''row of strictioi''),
        d_scoreboardHeader = None, d_stat = None\<rparr> (Some base)
       = Inr rule
     \<and> rule_fields rule ''TEXT'' = Some (Str ''IOI(Strict)'')
     \<and> scoreboard rule () [ex_standing_a] = [''header of ioi'', ''row of strictioi'']
     \<and> scoreboard base () [ex_standing_a] = [''header of ioi'', ''row of ioi'']"
proof -
  from buildContestRule_dispatch
    [where ?fs0.0 = "[''TEXT'' \<mapsto> Str ''IOI'']" and equ = oi_equ
       and ?row0.0 = "\<lambda>this (env :: unit) rank tsdoc. ''row of ioi''"
       and ?header0.0 = "\<lambda>this env. ''header of ioi''"
       and ?st0.0 = "\<lambda>this td (journal :: unit). 0 :: nat"
       and ?fs1.0 = "[''TEXT'' \<mapsto> Str ''IOI(Strict)'']"
       and ?row1.0 = "\<lambda>this env rank tsdoc. ''row of strictioi''"
       and ?st1.0 = None]
  obtain base rule where
    b: "buildContestRule \<lparr>d_fields = [''TEXT'' \<mapsto> Str ''IOI''],
        d_scoreboard = Some (scoreboardWith oi_equ),
        d_scoreboardRow = Some (\<lambda>this (env :: unit) rank tsdoc. ''row of ioi''),
        d_scoreboardHeader = Some (\<lambda>this env. ''header of ioi''),
        d_stat = Some (\<lambda>this td (journal :: unit). 0 :: nat)\<rparr> None = Inr base"
    and r: "buildContestRule \<lparr>d_fields = [''TEXT'' \<mapsto> Str ''IOI(Strict)''], d_scoreboard = None,
        d_scoreboardRow = Some (\<lambda>this env rank tsdoc. ''row of strictioi''),
        d_scoreboardHeader = None, d_stat = None\<rparr> (Some base) = Inr rule"
    and f: "\<forall>k. rule_fields rule k =
        (case [''TEXT'' \<mapsto> Str ''IOI(Strict)''] k of Some v \<Rightarrow> Some v
         | None \<Rightarrow> [''TEXT'' \<mapsto> Str ''IOI''] k)"
    and s: "\<forall>env cursor. scoreboard rule env cursor =
        ''header of ioi'' # map (\<lambda>(rank, tsdoc). ''row of strictioi'') (ranked oi_equ cursor)"
    and s0: "\<forall>env cursor. scoreboard base env cursor =
        ''header of ioi'' # map (\<lambda>(rank, tsdoc). ''row of ioi'') (ranked oi_equ cursor)"
    by blast
  have "rule_fields rule ''TEXT'' = Some (Str ''IOI(Strict)'')"
    using f by simp
  moreover have "scoreboard rule () [ex_standing_a] = [''header of ioi'', ''row of strictioi'']"
    using s by simp
  moreover have "scoreboard base () [ex_standing_a] = [''header of ioi'', ''row of ioi'']"
    using s0 by simp
  ultimately show ?thesis using b r by blast
qed

section \<open>Validation in \<^verbatim>\<open>add\<close> and \<^verbatim>\<open>edit\<close>\<close>

lemma add_rejects:
  "\<not> hasRule rule' \<or> beginAt' \<ge> endAt' \<Longrightarrow>
   \<exists>fs. add store newId domainId title' content' owner' rule' beginAt' endAt' pids' rated' data
     = (Inl (ValidationError fs), store)"
  by (auto simp: add_def)

lemma edit_rejects_unknown_rule:
  "r \<noteq> [] \<Longrightarrow> \<not> hasRule r \<Longrightarrow>
   edit store domainId tid (s\<lparr>set_rule := Some r\<rparr>) = (Inl (ValidationError [''rule'']), store)"
  by (simp add: edit_def)

lemma edit_error_keeps_store:
  "fst (edit store domainId tid s) = Inl e \<Longrightarrow> snd (edit store domainId tid s) = store"
  by (auto simp: edit_def split: option.splits if_splits)

text \<open>
  C9. \<^verbatim>\<open>add\<close> rejects an unknown rule and \<^verbatim>\<open>beginAt >= endAt\<close>, and \<^verbatim>\<open>edit\<close> rejects an unknown
  rule; \<^verbatim>\<open>edit\<close> has no test of the two instants: on a stored contest from 0 to 10000 s,
  the edit \<^verbatim>\<open>{ beginAt: 20000 s }\<close> succeeds and stores a contest that begins after its end,
  where \<^verbatim>\<open>add\<close> with these instants raises the \<^verbatim>\<open>ValidationError\<close>.
\<close>

theorem edit_accepts_reversed_times:
  "beginAt ex_doc = 0 \<and> endAt ex_doc = 10000000
   \<and> fst (edit [(''d'', 7) \<mapsto> ex_doc] ''d'' 7 ex_set) = Inr (ex_doc\<lparr>beginAt := 20000000\<rparr>)
   \<and> snd (edit [(''d'', 7) \<mapsto> ex_doc] ''d'' 7 ex_set) (''d'', 7) = Some (ex_doc\<lparr>beginAt := 20000000\<rparr>)
   \<and> endAt (ex_doc\<lparr>beginAt := 20000000\<rparr>) \<le> beginAt (ex_doc\<lparr>beginAt := 20000000\<rparr>)
   \<and> add Map.empty 7 ''d'' ''Round 1'' '''' 1 ''acm'' 20000000 10000000 [1, 2] False ex_doc
       = (Inl (ValidationError [''beginAt'', ''endAt'']), Map.empty)"
  by (simp add: edit_def add_def assign_def ex_doc_def ex_set_def ex_tdoc_def RULES_def
      hasRule_def tdoc.extend_def ContestDoc.fields_def)

end
